theory Spec2Isabelle
  imports Main
begin

section \<open>Chat ids and clock readings\<close>

text \<open>
  A chat id reaches the program as a JavaScript number (\<^verbatim>\<open>msg.chat.id\<close>) or as the
  string of digits an admin command captured (\<^verbatim>\<open>match[1]\<close>). The rate limiter keys its
  \<^verbatim>\<open>Map\<close> by the value itself, the user store by \<^verbatim>\<open>chatId.toString()\<close>.

  Telegram chat ids are integers of at most 52 bits, where \<^verbatim>\<open>Number.prototype.toString\<close>
  prints the plain decimal numeral.
\<close>

datatype chat_id = Num int | Str string

definition digit_char :: "nat \<Rightarrow> char" where
  "digit_char d = ''0123456789'' ! d"

fun digits :: "nat \<Rightarrow> string" where
  "digits n =
     (if n < 10 then [digit_char n]
      else digits (n div 10) @ [digit_char (n mod 10)])"

definition show_int :: "int \<Rightarrow> string" where
  "show_int i = (if i < 0 then CHR ''-'' # digits (nat (- i)) else digits (nat i))"

fun toString :: "chat_id \<Rightarrow> string" where
  "toString (Num n) = show_int n"
| "toString (Str s) = s"

text \<open>
  Every reading of the clock (\<^verbatim>\<open>Date.now()\<close>, \<^verbatim>\<open>new Date()\<close>) is an argument of the
  function that takes it: an integer, the milliseconds since 1970-01-01T00:00:00Z. Dates
  are stored as ISO strings (\<^verbatim>\<open>toISOString\<close>) and read back with \<^verbatim>\<open>new Date(s)\<close>; the
  round trip is exact to the millisecond, so a stored date is modelled by its time value.
\<close>

section \<open>Rate limiter\<close>

text \<open>
  \<^verbatim>\<open>userLastMessage\<close> is a process-wide \<^verbatim>\<open>Map\<close> from chat id to the clock reading of the
  last call that was let through; the model passes it in and returns it.

  The source tests \<^verbatim>\<open>lastMessage && (now - lastMessage) < RATE_LIMIT_MS\<close>: a missing
  entry (\<^verbatim>\<open>undefined\<close>) and a stored reading of \<^verbatim>\<open>0\<close> are both falsy, and both let
  the call through.
\<close>

definition RATE_LIMIT_MS :: int where
  "RATE_LIMIT_MS = 2000"

definition isRateLimited :: "int \<Rightarrow> 'k \<Rightarrow> ('k \<rightharpoonup> int) \<Rightarrow> bool \<times> ('k \<rightharpoonup> int)" where
  "isRateLimited now chatId userLastMessage =
     (case userLastMessage chatId of
        None \<Rightarrow> (False, userLastMessage(chatId \<mapsto> now))
      | Some lastMessage \<Rightarrow>
          if lastMessage \<noteq> 0 \<and> now - lastMessage < RATE_LIMIT_MS
          then (True, userLastMessage)
          else (False, userLastMessage(chatId \<mapsto> now)))"

text \<open>The calls of one chat at the clock readings \<open>ts\<close>, in order.\<close>

fun burst :: "int list \<Rightarrow> 'k \<Rightarrow> ('k \<rightharpoonup> int) \<Rightarrow> bool list \<times> ('k \<rightharpoonup> int)" where
  "burst [] chatId m = ([], m)"
| "burst (t # ts) chatId m =
     (let (r, m') = isRateLimited t chatId m;
          (rs, m'') = burst ts chatId m'
      in (r # rs, m''))"

section \<open>User store\<close>

text \<open>
  \<^verbatim>\<open>users.json\<close> holds one document, \<^verbatim>\<open>{users: {...}, subscriptions: {}}\<close>. The counters
  start at 0 and only ever grow by 1, so they are natural numbers. \<^verbatim>\<open>subscriptionExpiry\<close>
  is \<^verbatim>\<open>null\<close> or an ISO date string, which is never empty and hence truthy.
\<close>

record user =
  chatId :: string
  username :: string
  firstName :: string
  joinDate :: int
  freeSearchesUsed :: nat
  totalSearches :: nat
  isSubscribed :: bool
  subscriptionExpiry :: "int option"

record document =
  users :: "string \<rightharpoonup> user"
  subscriptions :: "(string \<times> string) list"

text \<open>
  The file on disk: its content, \<open>None\<close> when the file is missing or does not parse, and
  whether a write succeeds (on a read-only deployment none does). \<^verbatim>\<open>loadUsersData\<close>
  catches the read error and answers the empty document; \<^verbatim>\<open>saveUsersData\<close> catches
  the write error, logs it and goes on, the file as it was. A file that parses has the
  layout the program writes, the only writer of the file being the program.
\<close>

record disk =
  content :: "document option"
  writable :: bool

definition emptyData :: document where
  "emptyData = \<lparr>users = Map.empty, subscriptions = []\<rparr>"

definition loadUsersData :: "disk \<Rightarrow> document" where
  "loadUsersData d = (case content d of Some data \<Rightarrow> data | None \<Rightarrow> emptyData)"

definition saveUsersData :: "document \<Rightarrow> disk \<Rightarrow> disk" where
  "saveUsersData data d = (if writable d then d\<lparr>content := Some data\<rparr> else d)"

definition newUser :: "string \<Rightarrow> int \<Rightarrow> user" where
  "newUser userId now =
     \<lparr>chatId = userId, username = [], firstName = [], joinDate = now,
      freeSearchesUsed = 0, totalSearches = 0,
      isSubscribed = False, subscriptionExpiry = None\<rparr>"

text \<open>\<^verbatim>\<open>getUser\<close> returns the record it read or made, and the disk after its save.\<close>

definition getUser :: "int \<Rightarrow> chat_id \<Rightarrow> disk \<Rightarrow> user \<times> disk" where
  "getUser now cid d =
     (let data = loadUsersData d; userId = toString cid in
      case users data userId of
        None \<Rightarrow>
          (let u = newUser userId now
           in (u, saveUsersData (data\<lparr>users := (users data)(userId \<mapsto> u)\<rparr>) d))
      | Some u \<Rightarrow> (u, d))"

text \<open>
  The \<^verbatim>\<open>updates\<close> object of \<^verbatim>\<open>updateUser\<close>: each field is absent (\<open>None\<close>) or carries the
  value \<^verbatim>\<open>Object.assign\<close> copies into the record.
\<close>

record updates =
  set_chatId :: "string option"
  set_username :: "string option"
  set_firstName :: "string option"
  set_joinDate :: "int option"
  set_freeSearchesUsed :: "nat option"
  set_totalSearches :: "nat option"
  set_isSubscribed :: "bool option"
  set_subscriptionExpiry :: "int option option"

definition no_updates :: updates where
  "no_updates =
     \<lparr>set_chatId = None, set_username = None, set_firstName = None, set_joinDate = None,
      set_freeSearchesUsed = None, set_totalSearches = None,
      set_isSubscribed = None, set_subscriptionExpiry = None\<rparr>"

definition assign :: "user \<Rightarrow> updates \<Rightarrow> user" where
  "assign u up =
     \<lparr>chatId = (case set_chatId up of None \<Rightarrow> chatId u | Some v \<Rightarrow> v),
      username = (case set_username up of None \<Rightarrow> username u | Some v \<Rightarrow> v),
      firstName = (case set_firstName up of None \<Rightarrow> firstName u | Some v \<Rightarrow> v),
      joinDate = (case set_joinDate up of None \<Rightarrow> joinDate u | Some v \<Rightarrow> v),
      freeSearchesUsed =
        (case set_freeSearchesUsed up of None \<Rightarrow> freeSearchesUsed u | Some v \<Rightarrow> v),
      totalSearches = (case set_totalSearches up of None \<Rightarrow> totalSearches u | Some v \<Rightarrow> v),
      isSubscribed = (case set_isSubscribed up of None \<Rightarrow> isSubscribed u | Some v \<Rightarrow> v),
      subscriptionExpiry =
        (case set_subscriptionExpiry up of None \<Rightarrow> subscriptionExpiry u | Some v \<Rightarrow> v)\<rparr>"

definition updateUser :: "chat_id \<Rightarrow> updates \<Rightarrow> disk \<Rightarrow> disk" where
  "updateUser cid up d =
     (let data = loadUsersData d; userId = toString cid in
      case users data userId of
        None \<Rightarrow> d
      | Some u \<Rightarrow> saveUsersData (data\<lparr>users := (users data)(userId \<mapsto> assign u up)\<rparr>) d)"

text \<open>The record the program finds for a key when it loads the file.\<close>

definition stored :: "disk \<Rightarrow> string \<Rightarrow> user option" where
  "stored d k = users (loadUsersData d) k"

section \<open>Entitlement\<close>

datatype reason = subscribed | free_trial | limit_reached

record permission =
  allowed :: bool
  reason :: reason

definition freeCheck :: "user \<Rightarrow> permission" where
  "freeCheck u =
     (if freeSearchesUsed u < 1 then \<lparr>allowed = True, reason = free_trial\<rparr>
      else \<lparr>allowed = False, reason = limit_reached\<rparr>)"

text \<open>
  \<^verbatim>\<open>canUserSearch\<close> reads the clock in \<^verbatim>\<open>getUser\<close> (\<open>tj\<close>, the join date of a new record)
  and again for the comparison with the expiry (\<open>now\<close>). \<open>freeCheck\<close> is the tail of the
  function, the test \<^verbatim>\<open>user.freeSearchesUsed < 1\<close> on the record read at the start.
\<close>

definition canUserSearch :: "int \<Rightarrow> int \<Rightarrow> chat_id \<Rightarrow> disk \<Rightarrow> permission \<times> disk" where
  "canUserSearch tj now cid d =
     (let (u, d1) = getUser tj cid d in
      case subscriptionExpiry u of
        Some expiryDate \<Rightarrow>
          if isSubscribed u then
            if expiryDate > now then (\<lparr>allowed = True, reason = subscribed\<rparr>, d1)
            else
              (freeCheck u,
               updateUser cid
                 (no_updates\<lparr>set_isSubscribed := Some False,
                              set_subscriptionExpiry := Some None\<rparr>) d1)
          else (freeCheck u, d1)
      | None \<Rightarrow> (freeCheck u, d1))"

text \<open>The calls of \<^verbatim>\<open>canUserSearch\<close> of one chat at the clock readings \<open>ts\<close>, in order.\<close>

fun canUserSearch_seq :: "(int \<times> int) list \<Rightarrow> chat_id \<Rightarrow> disk \<Rightarrow> permission list \<times> disk" where
  "canUserSearch_seq [] cid d = ([], d)"
| "canUserSearch_seq ((tj, now) # ts) cid d =
     (let (p, d1) = canUserSearch tj now cid d;
          (ps, d2) = canUserSearch_seq ts cid d1
      in (p # ps, d2))"

subsection \<open>Admin commands\<close>

text \<open>
  \<^verbatim>\<open>/adduser <id> <days>\<close>: the handler checks the sender, adds \<open>days\<close> to the day of the
  month of the local date (\<^verbatim>\<open>expiryDate.setDate(expiryDate.getDate() + days)\<close>), stores the
  result as ISO string through \<^verbatim>\<open>updateUser\<close>, tells the admin "Added ... days
  subscription for user ..." and tells the user "Subscription Activated!". Both messages
  are sent whatever \<^verbatim>\<open>updateUser\<close> did; \<open>Added\<close> stands for the two.

  \<^verbatim>\<open>setDate\<close> works on the local calendar: it takes the local time of the instant, moves
  it by whole days (of 86400000 ms, the time within the day kept) and turns the local
  time back into an instant. What the server's time zone contributes are the two offsets
  of the language definition: \<^verbatim>\<open>LocalTZA(t, true)\<close>, the offset in force at the instant
  \<open>t\<close>, and \<^verbatim>\<open>LocalTZA(t, false)\<close>, the offset in force at the local time \<open>t\<close>. Across a
  daylight-saving change the two differ and the expiry is not a multiple of 24 hours
  away. An instant beyond the range of \<^verbatim>\<open>Date\<close> (8.64e15 ms either way) is invalid:
  \<^verbatim>\<open>toISOString\<close> throws \<^verbatim>\<open>RangeError\<close> before \<^verbatim>\<open>updateUser\<close> is called, nothing is stored
  and nothing is sent.
\<close>

record zone =
  offsetAt :: "int \<Rightarrow> int"
  offsetOfLocal :: "int \<Rightarrow> int"

definition addDays :: "zone \<Rightarrow> int \<Rightarrow> nat \<Rightarrow> int" where
  "addDays z now days =
     (let t = now + offsetAt z now;
          newDate = t + int days * 86400000
      in newDate - offsetOfLocal z newDate)"

definition ADMIN_CHAT_ID :: string where
  "ADMIN_CHAT_ID = ''7490634345''"

definition MAX_TIME :: int where
  "MAX_TIME = 8640000000000000"

datatype admin_reply = Unauthorized | RangeError | Added nat string

definition adduser ::
  "zone \<Rightarrow> chat_id \<Rightarrow> int \<Rightarrow> string \<Rightarrow> nat \<Rightarrow> disk \<Rightarrow> admin_reply \<times> disk" where
  "adduser z sender now userId days d =
     (if toString sender \<noteq> ADMIN_CHAT_ID then (Unauthorized, d)
      else
        (let expiryDate = addDays z now days in
         if \<bar>expiryDate\<bar> > MAX_TIME then (RangeError, d)
         else (Added days userId,
               updateUser (Str userId)
                 (no_updates\<lparr>set_isSubscribed := Some True,
                              set_subscriptionExpiry := Some (Some expiryDate)\<rparr>) d)))"

definition removeuser :: "chat_id \<Rightarrow> string \<Rightarrow> disk \<Rightarrow> disk" where
  "removeuser sender userId d =
     (if toString sender \<noteq> ADMIN_CHAT_ID then d
      else updateUser (Str userId)
             (no_updates\<lparr>set_isSubscribed := Some False,
                          set_subscriptionExpiry := Some None\<rparr>) d)"

text \<open>\<^verbatim>\<open>/start\<close> makes the record if need be and stores the sender's display names.\<close>

definition start :: "int \<Rightarrow> chat_id \<Rightarrow> string \<Rightarrow> string \<Rightarrow> disk \<Rightarrow> disk" where
  "start tj cid uname fname d =
     (let (u, d1) = getUser tj cid d
      in updateUser cid (no_updates\<lparr>set_username := Some uname, set_firstName := Some fname\<rparr>) d1)"

section \<open>Strings and JSON values\<close>

text \<open>
  A JavaScript string is a sequence of UTF-16 code units. The model works on strings of
  code units below 256 (Latin-1), one \<open>char\<close> each. There the white space of \<^verbatim>\<open>\s\<close> and
  of \<^verbatim>\<open>trim\<close> is TAB, LF, VT, FF, CR, space and the no-break space, and \<^verbatim>\<open>toLowerCase\<close>
  maps A-Z and the capital letters U+00C0 to U+00DE (but the sign U+00D7) 32 places up.
\<close>

definition is_space :: "char \<Rightarrow> bool" where
  "is_space c =
     (c = CHR 0x09 \<or> c = CHR 0x0A \<or> c = CHR 0x0B \<or> c = CHR 0x0C \<or> c = CHR 0x0D \<or>
      c = CHR '' '' \<or> c = CHR 0xA0)"

definition lower_char :: "char \<Rightarrow> char" where
  "lower_char c =
     (let n = of_char c :: nat in
      if (65 \<le> n \<and> n \<le> 90) \<or> (192 \<le> n \<and> n \<le> 222 \<and> n \<noteq> 215)
      then char_of (n + 32) else c)"

definition toLowerCase :: "string \<Rightarrow> string" where
  "toLowerCase s = map lower_char s"

text \<open>\<^verbatim>\<open>s.replace(/c/g, r)\<close> for a single character \<open>c\<close>.\<close>

definition replace_char :: "char \<Rightarrow> string \<Rightarrow> string \<Rightarrow> string" where
  "replace_char c r s = concat (map (\<lambda>x. if x = c then r else [x]) s)"

text \<open>\<^verbatim>\<open>s.includes(sub)\<close>.\<close>

fun includes_str :: "string \<Rightarrow> string \<Rightarrow> bool" where
  "includes_str [] sub = (sub = [])"
| "includes_str (c # r) sub = (take (length sub) (c # r) = sub \<or> includes_str r sub)"

fun join :: "string \<Rightarrow> string list \<Rightarrow> string" where
  "join sep [] = []"
| "join sep [x] = x"
| "join sep (x # y # ys) = x @ sep @ join sep (y # ys)"

text \<open>
  What \<^verbatim>\<open>response.data\<close> can be once axios has parsed the body: a JSON value, or the
  body as a string when it is not JSON. A number is held as the text \<^verbatim>\<open>String(n)\<close> prints
  (\<^verbatim>\<open>0\<close> for both zeros), which is all the program asks of it: whether it is zero, and
  its text. An object lists its properties in the order \<^verbatim>\<open>Object.entries\<close> gives them.
\<close>

datatype json =
    JNull
  | JBool bool
  | JNum string
  | JStr string
  | JArr "json list"
  | JObj "(string \<times> json) list"

text \<open>Truthiness; \<open>None\<close> is \<^verbatim>\<open>undefined\<close>, the value of a property that is not there.\<close>

fun truthy :: "json \<Rightarrow> bool" where
  "truthy JNull = False"
| "truthy (JBool b) = b"
| "truthy (JNum t) = (t \<noteq> ''0'')"
| "truthy (JStr s) = (s \<noteq> [])"
| "truthy (JArr xs) = True"
| "truthy (JObj kvs) = True"

fun get_prop :: "json \<Rightarrow> string \<Rightarrow> json option" where
  "get_prop (JObj kvs) k = map_of kvs k"
| "get_prop v k = None"

text \<open>
  \<^verbatim>\<open>String(v)\<close>, which is also what a template literal does to \<^verbatim>\<open>${v}\<close>: an array joins
  its elements with commas, \<^verbatim>\<open>null\<close> elements as the empty string; an object prints as
  \<^verbatim>\<open>[object Object]\<close>.
\<close>

fun to_string :: "json \<Rightarrow> string" where
  "to_string JNull = ''null''"
| "to_string (JBool b) = (if b then ''true'' else ''false'')"
| "to_string (JNum t) = t"
| "to_string (JStr s) = s"
| "to_string (JArr xs) = join '','' (map (\<lambda>x. if x = JNull then [] else to_string x) xs)"
| "to_string (JObj kvs) = ''[object Object]''"

text \<open>\<^verbatim>\<open>JSON.stringify(v)\<close> without indentation.\<close>

definition hex_char :: "nat \<Rightarrow> char" where
  "hex_char d = ''0123456789abcdef'' ! d"

definition quote_char :: "char \<Rightarrow> string" where
  "quote_char c =
     (if c = CHR 0x22 then [CHR 0x5C, CHR 0x22]
      else if c = CHR 0x5C then [CHR 0x5C, CHR 0x5C]
      else if c = CHR 0x08 then [CHR 0x5C, CHR ''b'']
      else if c = CHR 0x0C then [CHR 0x5C, CHR ''f'']
      else if c = CHR 0x0A then [CHR 0x5C, CHR ''n'']
      else if c = CHR 0x0D then [CHR 0x5C, CHR ''r'']
      else if c = CHR 0x09 then [CHR 0x5C, CHR ''t'']
      else if (of_char c :: nat) < 32
        then [CHR 0x5C, CHR ''u'', CHR ''0'', CHR ''0'',
              hex_char ((of_char c :: nat) div 16), hex_char ((of_char c :: nat) mod 16)]
      else [c])"

definition quote :: "string \<Rightarrow> string" where
  "quote s = [CHR 0x22] @ concat (map quote_char s) @ [CHR 0x22]"

fun stringify :: "json \<Rightarrow> string" where
  "stringify JNull = ''null''"
| "stringify (JBool b) = (if b then ''true'' else ''false'')"
| "stringify (JNum t) = t"
| "stringify (JStr s) = quote s"
| "stringify (JArr xs) = ''['' @ join '','' (map stringify xs) @ '']''"
| "stringify (JObj kvs) =
     ''{'' @ join '','' (map (\<lambda>kv. quote (fst kv) @ '':'' @ stringify (snd kv)) kvs) @ ''}''"

section \<open>Escaping\<close>

text \<open>
  \<^verbatim>\<open>escapeHtmlEntities\<close> returns anything that is not a string as it is; a string goes
  through the three replacements, \<^verbatim>\<open>&\<close> first.
\<close>

definition escapeString :: "string \<Rightarrow> string" where
  "escapeString text =
     replace_char (CHR ''>'') ''&gt;''
       (replace_char (CHR ''<'') ''&lt;''
         (replace_char (CHR ''&'') ''&amp;'' text))"

fun escapeHtmlEntities :: "json \<Rightarrow> json" where
  "escapeHtmlEntities (JStr text) = JStr (escapeString text)"
| "escapeHtmlEntities v = v"

section \<open>Lookup client\<close>

text \<open>
  \<^verbatim>\<open>fetchFlipcartInfo\<close> is modelled in two layers. The function below is its body as
  written, for whatever \<^verbatim>\<open>await axios.get(...)\<close> yields: a response (status, status text,
  parsed body) or a thrown error (its \<^verbatim>\<open>code\<close>, if it has one, and its \<^verbatim>\<open>message\<close>). Which
  of these the call yields for what comes over the wire is \<open>axios_get\<close>, further down.
\<close>

record response =
  status :: int
  statusText :: string
  data :: json

datatype axios_outcome = Resolved response | Rejected "string option" string

text \<open>The returned object: \<^verbatim>\<open>{success: false, error}\<close> or \<^verbatim>\<open>{success: true, data}\<close>.\<close>

datatype fetch_result = Failed string | Succeeded json

definition not_found_body :: "json \<Rightarrow> bool" where
  "not_found_body v = (case v of JStr s \<Rightarrow> s \<noteq> [] \<and> includes_str s ''not found'' | _ \<Rightarrow> False)"

definition error_indicated :: "json \<Rightarrow> bool" where
  "error_indicated v =
     (truthy v \<and>
      ((case get_prop v ''error'' of Some e \<Rightarrow> truthy e | None \<Rightarrow> False) \<or>
       get_prop v ''status'' = Some (JStr ''error'')))"

text \<open>\<^verbatim>\<open>response.data.error || JSON.stringify(response.data)\<close>.\<close>

definition apiError :: "json \<Rightarrow> json" where
  "apiError v =
     (case get_prop v ''error'' of
        Some e \<Rightarrow> if truthy e then e else JStr (stringify v)
      | None \<Rightarrow> JStr (stringify v))"

fun fetchFlipcartInfo :: "axios_outcome \<Rightarrow> fetch_result" where
  "fetchFlipcartInfo (Resolved r) =
     (if not_found_body (data r)
      then Failed ''The API returned a \"not found\" response for this number.''
      else if status r \<ge> 200 \<and> status r < 300 then
        if error_indicated (data r)
        then Failed (''API reported an issue: '' @
                     to_string (escapeHtmlEntities (apiError (data r))))
        else Succeeded (data r)
      else Failed (''HTTP Error: '' @ show_int (status r) @ '' '' @ statusText r))"
| "fetchFlipcartInfo (Rejected code message) =
     (let errorMessage =
            (if code = Some ''ECONNABORTED'' then ''Request timed out (15s).'' else message)
      in Failed (''Network/API failure: '' @ escapeString errorMessage))"

text \<open>
  The six return statements of \<^verbatim>\<open>fetchFlipcartInfo\<close>, named as the specification names
  the outcomes of a lookup, each with what the statement puts into its object:
  \<open>classify\<close> says which statement an outcome of the request reaches, \<open>result_of\<close> is
  the object that statement builds.
\<close>

datatype lookup_outcome =
    NotFound
  | ApiError string
  | HttpError int string
  | Timeout
  | NetworkFailure string
  | Success json

fun classify :: "axios_outcome \<Rightarrow> lookup_outcome" where
  "classify (Resolved r) =
     (if not_found_body (data r) then NotFound
      else if status r \<ge> 200 \<and> status r < 300 then
        if error_indicated (data r)
        then ApiError (to_string (escapeHtmlEntities (apiError (data r))))
        else Success (data r)
      else HttpError (status r) (statusText r))"
| "classify (Rejected code message) =
     (if code = Some ''ECONNABORTED'' then Timeout else NetworkFailure (escapeString message))"

fun result_of :: "lookup_outcome \<Rightarrow> fetch_result" where
  "result_of NotFound = Failed ''The API returned a \"not found\" response for this number.''"
| "result_of (ApiError m) = Failed (''API reported an issue: '' @ m)"
| "result_of (HttpError code text) = Failed (''HTTP Error: '' @ show_int code @ '' '' @ text)"
| "result_of Timeout = Failed ''Network/API failure: Request timed out (15s).''"
| "result_of (NetworkFailure m) = Failed (''Network/API failure: '' @ m)"
| "result_of (Success payload) = Succeeded payload"

text \<open>
  What comes over the wire, and what \<^verbatim>\<open>axios.get\<close> makes of it. The call passes
  \<^verbatim>\<open>params\<close> and \<^verbatim>\<open>timeout: 15000\<close> and nothing else, and the program sets no defaults
  and no interceptors; so axios settles a response by its default \<^verbatim>\<open>validateStatus\<close>,
  \<^verbatim>\<open>status >= 200 && status < 300\<close>: it resolves with the response when the test holds and
  rejects otherwise, with the message \<^verbatim>\<open>Request failed with status code N\<close> and the code
  \<^verbatim>\<open>ERR_BAD_REQUEST\<close> (4xx) or \<^verbatim>\<open>ERR_BAD_RESPONSE\<close> (5xx), in older versions no code. A
  request with no answer after 15000 ms is rejected with code \<^verbatim>\<open>ECONNABORTED\<close>; any other
  failure (no connection, an aborted request) with the code and message of its cause.
\<close>

datatype exchange = Responded response | TimedOut | NoResponse "string option" string

definition bad_status_code :: "int \<Rightarrow> string option" where
  "bad_status_code s =
     (if 400 \<le> s \<and> s < 500 then Some ''ERR_BAD_REQUEST''
      else if 500 \<le> s \<and> s < 600 then Some ''ERR_BAD_RESPONSE''
      else None)"

definition axios_get :: "exchange \<Rightarrow> axios_outcome" where
  "axios_get x =
     (case x of
        Responded r \<Rightarrow>
          if status r \<ge> 200 \<and> status r < 300 then Resolved r
          else Rejected (bad_status_code (status r))
                 (''Request failed with status code '' @ show_int (status r))
      | TimedOut \<Rightarrow> Rejected (Some ''ECONNABORTED'') ''timeout of 15000ms exceeded''
      | NoResponse code message \<Rightarrow> Rejected code message)"

section \<open>Response formatter\<close>

subsection \<open>Cleaning an address\<close>

text \<open>\<^verbatim>\<open>.replace(/!!/g, ', ')\<close>: left to right, each pair once.\<close>

fun replaceDoubleBang :: "string \<Rightarrow> string" where
  "replaceDoubleBang (a # b # r) =
     (if a = CHR ''!'' \<and> b = CHR ''!'' then '', '' @ replaceDoubleBang r
      else a # replaceDoubleBang (b # r))"
| "replaceDoubleBang s = s"

text \<open>
  \<^verbatim>\<open>(\s*,){1,}\<close> at the head of a string, greedy: the rest after the longest run of
  groups, \<open>None\<close> when not even one group matches. White space that no comma follows is
  given back.
\<close>

function commaGroups :: "string \<Rightarrow> string option" where
  "commaGroups s =
     (case dropWhile is_space s of
        [] \<Rightarrow> None
      | c # r \<Rightarrow>
          if c = CHR '','' then Some (case commaGroups r of Some r' \<Rightarrow> r' | None \<Rightarrow> r)
          else None)"
  by pat_completeness auto
termination
proof (relation "measure length")
  show "wf (measure length)" by simp
next
  fix s :: string and c r
  assume "dropWhile is_space s = c # r"
  then have "length (c # r) \<le> length s"
    by (metis length_dropWhile_le)
  then show "(r, s) \<in> measure length" by simp
qed

declare commaGroups.simps [simp del]

lemma commaGroups_length: "commaGroups s = Some r \<Longrightarrow> length r < length s"
proof (induction s arbitrary: r rule: commaGroups.induct)
  case (1 s)
  from "1.prems" obtain c t where dw: "dropWhile is_space s = c # t" and c: "c = CHR '',''"
    by (subst (asm) commaGroups.simps) (auto split: list.splits if_splits)
  have len: "length t < length s"
    using length_dropWhile_le [of is_space s] dw by simp
  show ?case
  proof (cases "commaGroups t")
    case None
    with "1.prems" dw c have "r = t" by (subst (asm) commaGroups.simps) simp
    with len show ?thesis by simp
  next
    case (Some t')
    with "1.prems" dw c have "r = t'" by (subst (asm) commaGroups.simps) simp
    moreover have "length t' < length t" using "1.IH" [OF dw c Some] .
    ultimately show ?thesis using len by simp
  qed
qed

text \<open>\<^verbatim>\<open>.replace(/,(\s*,){1,}/g, ', ')\<close>.\<close>

function collapseCommas :: "string \<Rightarrow> string" where
  "collapseCommas [] = []"
| "collapseCommas (c # r) =
     (if c = CHR '','' then
        (case commaGroups r of
           Some r' \<Rightarrow> '', '' @ collapseCommas r'
         | None \<Rightarrow> c # collapseCommas r)
      else c # collapseCommas r)"
  by pat_completeness auto
termination
proof (relation "measure length")
  show "wf (measure length)" by simp
next
  fix c :: char and r r'
  assume "commaGroups r = Some r'"
  then have "length r' < length r" by (rule commaGroups_length)
  then show "(r', c # r) \<in> measure length" by simp
qed simp_all

definition trim :: "string \<Rightarrow> string" where
  "trim s = rev (dropWhile is_space (rev (dropWhile is_space s)))"

text \<open>\<^verbatim>\<open>.replace(/^[,\s]+|[,\s]+$/g, '')\<close>: the run at the start and the run at the end.\<close>

definition is_separator :: "char \<Rightarrow> bool" where
  "is_separator c = (c = CHR '','' \<or> is_space c)"

definition stripSeparators :: "string \<Rightarrow> string" where
  "stripSeparators s = rev (dropWhile is_separator (rev (dropWhile is_separator s)))"

definition cleanAddress :: "string \<Rightarrow> string" where
  "cleanAddress stringValue =
     stripSeparators (trim (collapseCommas
       (replace_char (CHR ''!'') '', '' (replaceDoubleBang stringValue))))"

subsection \<open>Formatting\<close>

text \<open>
  \<^verbatim>\<open>formatResponse\<close> builds one HTML string. The model keeps its parts apart: per item
  that is an object the number of its header (\<^verbatim>\<open>Result n\<close>) and its lines, each line
  with its emoji, its label and its value. The emoji is named, not spelled; the label is
  the fixed \<^verbatim>\<open>Aadhaar No.\<close> or the key in title case, which is left as the key it is
  made from. When no item has a line the function returns the "No details found" text.
\<close>

datatype emoji = IdCard | Person | Phone | Antenna | House | Arrow

datatype label = Fixed string | TitleCase string

record line =
  prefixEmoji :: emoji
  displayKey :: label
  displayValue :: string

datatype formatted = NoDetails | Details "(nat \<times> line list) list"

definition formatEntry :: "string \<times> json \<Rightarrow> line option" where
  "formatEntry kv =
     (let key = fst kv; stringValue = to_string (snd kv) in
      if stringValue \<noteq> [] \<and> toLowerCase stringValue \<noteq> ''not found'' \<and>
         toLowerCase stringValue \<noteq> ''[not set]''
      then Some
        (if toLowerCase key = ''id_number''
           then \<lparr>prefixEmoji = IdCard, displayKey = Fixed ''Aadhaar No.'',
                 displayValue = escapeString stringValue\<rparr>
         else if toLowerCase key = ''name''
           then \<lparr>prefixEmoji = Person, displayKey = TitleCase key,
                 displayValue = escapeString stringValue\<rparr>
         else if toLowerCase key = ''mobile'' \<or> toLowerCase key = ''alt_mobile''
           then \<lparr>prefixEmoji = Phone, displayKey = TitleCase key,
                 displayValue = escapeString stringValue\<rparr>
         else if toLowerCase key = ''circle''
           then \<lparr>prefixEmoji = Antenna, displayKey = TitleCase key,
                 displayValue = escapeString stringValue\<rparr>
         else if toLowerCase key = ''address''
           then \<lparr>prefixEmoji = House, displayKey = TitleCase key,
                 displayValue = escapeString (cleanAddress stringValue)\<rparr>
         else \<lparr>prefixEmoji = Arrow, displayKey = TitleCase key,
               displayValue = escapeString stringValue\<rparr>)
      else None)"

text \<open>\<^verbatim>\<open>Object.entries(item)\<close> of an item with \<^verbatim>\<open>typeof item === 'object' && item !== null\<close>.\<close>

fun entries :: "json \<Rightarrow> (string \<times> json) list option" where
  "entries (JObj kvs) = Some kvs"
| "entries (JArr xs) = Some (zip (map digits [0..<length xs]) xs)"
| "entries v = None"

fun formatItems :: "nat \<Rightarrow> json list \<Rightarrow> (nat \<times> line list) list" where
  "formatItems index [] = []"
| "formatItems index (item # items) =
     (case entries item of
        Some kvs \<Rightarrow> (index + 1, List.map_filter formatEntry kvs) # formatItems (index + 1) items
      | None \<Rightarrow> formatItems (index + 1) items)"

definition formatResponse :: "json \<Rightarrow> formatted" where
  "formatResponse v =
     (let itemsToProcess = (case v of JArr xs \<Rightarrow> xs | _ \<Rightarrow> [v]);
          blocks = formatItems 0 itemsToProcess
      in if list_ex (\<lambda>b. snd b \<noteq> []) blocks then Details blocks else NoDetails)"

section \<open>The lookup request\<close>

text \<open>
  What one run of \<^verbatim>\<open>handleMobileNumber\<close> takes from outside: its four readings of the
  clock, whether the "Fetching information" notice could be sent (if \<^verbatim>\<open>bot.sendMessage\<close>
  rejects there, the \<^verbatim>\<open>catch\<close> block answers "Critical Error" and nothing else runs),
  and what \<^verbatim>\<open>await axios.get(...)\<close> yielded for the request (an \<open>axios_get x\<close>).
\<close>

record env =
  t_rate :: int
  t_join :: int
  t_check :: int
  loading_sent :: bool
  outcome :: axios_outcome
  t_join2 :: int

datatype reply =
    NoReply
  | LimitReached
  | Result formatted bool
  | ErrorReply string
  | CriticalError

text \<open>
  \<open>Result f notice\<close> is the formatted response, \<open>notice\<close> telling whether the "Free
  search used!" line is appended. The state is the rate limiter's map and the disk.
  The number to look up only goes into the request, whose outcome is part of \<open>env\<close>.
  \<open>commitUsage\<close> is the \<^verbatim>\<open>updates\<close> object of the success branch: \<^verbatim>\<open>totalSearches + 1\<close>,
  and \<^verbatim>\<open>freeSearchesUsed + 1\<close> when the permission was the free trial.
\<close>

definition commitUsage :: "permission \<Rightarrow> user \<Rightarrow> updates" where
  "commitUsage searchPermission u =
     (if reason searchPermission = free_trial
      then no_updates\<lparr>set_totalSearches := Some (totalSearches u + 1),
                      set_freeSearchesUsed := Some (freeSearchesUsed u + 1)\<rparr>
      else no_updates\<lparr>set_totalSearches := Some (totalSearches u + 1)\<rparr>)"

definition handleMobileNumber ::
  "env \<Rightarrow> chat_id \<Rightarrow> (chat_id \<rightharpoonup> int) \<times> disk \<Rightarrow> reply \<times> (chat_id \<rightharpoonup> int) \<times> disk" where
  "handleMobileNumber e cid st =
     (let (limited, rl) = isRateLimited (t_rate e) cid (fst st) in
      if limited then (NoReply, rl, snd st)
      else
        (let (searchPermission, d1) = canUserSearch (t_join e) (t_check e) cid (snd st) in
         if \<not> allowed searchPermission then (LimitReached, rl, d1)
         else if \<not> loading_sent e then (CriticalError, rl, d1)
         else
           (case fetchFlipcartInfo (outcome e) of
              Succeeded payload \<Rightarrow>
                (let (u, d2) = getUser (t_join2 e) cid d1;
                     d3 = updateUser cid (commitUsage searchPermission u) d2
                 in (Result (formatResponse payload)
                       (reason searchPermission = free_trial \<and> freeSearchesUsed u = 0),
                     rl, d3))
            | Failed err \<Rightarrow> (ErrorReply err, rl, d1))))"

section \<open>Predicates of the statements, and examples\<close>

text \<open>
  \<open>unnamed_kept up u u'\<close>: every field that \<open>up\<close> does not name has in \<open>u'\<close> the value it
  has in \<open>u\<close>.
\<close>

definition unnamed_kept :: "updates \<Rightarrow> user \<Rightarrow> user \<Rightarrow> bool" where
  "unnamed_kept up u u' =
     ((set_chatId up = None \<longrightarrow> chatId u' = chatId u) \<and>
      (set_username up = None \<longrightarrow> username u' = username u) \<and>
      (set_firstName up = None \<longrightarrow> firstName u' = firstName u) \<and>
      (set_joinDate up = None \<longrightarrow> joinDate u' = joinDate u) \<and>
      (set_freeSearchesUsed up = None \<longrightarrow> freeSearchesUsed u' = freeSearchesUsed u) \<and>
      (set_totalSearches up = None \<longrightarrow> totalSearches u' = totalSearches u) \<and>
      (set_isSubscribed up = None \<longrightarrow> isSubscribed u' = isSubscribed u) \<and>
      (set_subscriptionExpiry up = None \<longrightarrow> subscriptionExpiry u' = subscriptionExpiry u))"

text \<open>The record after the lazy expiry.\<close>

definition expire :: "user \<Rightarrow> user" where
  "expire u = u\<lparr>isSubscribed := False, subscriptionExpiry := None\<rparr>"

text \<open>
  The invariant of the store: a record that is subscribed has an expiry date.
\<close>

definition expiry_known :: "user \<Rightarrow> bool" where
  "expiry_known u = (isSubscribed u \<longrightarrow> subscriptionExpiry u \<noteq> None)"

definition store_ok :: "disk \<Rightarrow> bool" where
  "store_ok d = (\<forall>k u. stored d k = Some u \<longrightarrow> expiry_known u)"

text \<open>
  A server that runs on UTC. A store with a user who has not searched yet and a
  subscriber whose subscription ends at 9000; an empty store; the two stores on a file
  system that refuses every write; a request that succeeds and one that times out.
\<close>

definition utc :: zone where
  "utc = \<lparr>offsetAt = (\<lambda>t. 0), offsetOfLocal = (\<lambda>t. 0)\<rparr>"

definition example_user :: user where
  "example_user =
     \<lparr>chatId = ''42'', username = ''asha'', firstName = ''Asha'', joinDate = 1000,
      freeSearchesUsed = 0, totalSearches = 0, isSubscribed = False,
      subscriptionExpiry = None\<rparr>"

definition example_subscriber :: user where
  "example_subscriber =
     \<lparr>chatId = ''77'', username = ''ravi'', firstName = ''Ravi'', joinDate = 2000,
      freeSearchesUsed = 1, totalSearches = 3, isSubscribed = True,
      subscriptionExpiry = Some 9000\<rparr>"

definition example_disk :: disk where
  "example_disk =
     \<lparr>content = Some \<lparr>users = [''42'' \<mapsto> example_user, ''77'' \<mapsto> example_subscriber],
                      subscriptions = []\<rparr>,
      writable = True\<rparr>"

definition fresh_disk :: disk where
  "fresh_disk = \<lparr>content = Some emptyData, writable = True\<rparr>"

definition readonly_fresh_disk :: disk where
  "readonly_fresh_disk = fresh_disk\<lparr>writable := False\<rparr>"

definition readonly_example_disk :: disk where
  "readonly_example_disk = example_disk\<lparr>writable := False\<rparr>"

definition example_payload :: json where
  "example_payload = JObj [(''name'', JStr ''X''), (''mobile'', JStr ''9876543210'')]"

definition example_env :: env where
  "example_env =
     \<lparr>t_rate = 5000, t_join = 5001, t_check = 5002, loading_sent = True,
      outcome = Resolved \<lparr>status = 200, statusText = ''OK'', data = example_payload\<rparr>,
      t_join2 = 5003\<rparr>"

definition failing_env :: env where
  "failing_env =
     example_env\<lparr>outcome := Rejected (Some ''ECONNABORTED'') ''timeout of 15000ms exceeded''\<rparr>"

text \<open>
  Two responses of the API: a JSON body whose \<^verbatim>\<open>error\<close> is an array, and a 404 with an
  empty body.
\<close>

definition array_error_response :: response where
  "array_error_response =
     \<lparr>status = 200, statusText = ''OK'', data = JObj [(''error'', JArr [JStr ''<b>x</b>''])]\<rparr>"

definition missing_page_response :: response where
  "missing_page_response = \<lparr>status = 404, statusText = ''Not Found'', data = JStr []\<rparr>"

text \<open>
  \<open>next_comma s\<close>: the first character of \<open>s\<close> that is not white space is a comma.
  \<open>repeated_comma s\<close>: somewhere in \<open>s\<close> two commas stand with nothing but white space
  between them.
\<close>

definition next_comma :: "string \<Rightarrow> bool" where
  "next_comma s = (case dropWhile is_space s of [] \<Rightarrow> False | c # r \<Rightarrow> c = CHR '','')"









section \<open>Properties of the rate limiter\<close>

lemma isRateLimited_denied_same:
  "fst (isRateLimited now k m) \<Longrightarrow> snd (isRateLimited now k m) = m"
  by (auto simp: isRateLimited_def split: option.splits if_splits)

lemma isRateLimited_when_recent:
  "m k = Some t0 \<Longrightarrow> t0 \<noteq> 0 \<Longrightarrow> now - t0 < 2000 \<Longrightarrow> isRateLimited now k m = (True, m)"
  by (simp add: isRateLimited_def RATE_LIMIT_MS_def)

lemma burst_all_denied:
  "m k = Some t0 \<Longrightarrow> t0 \<noteq> 0 \<Longrightarrow> \<forall>t \<in> set ts. t - t0 < 2000 \<Longrightarrow>
     burst ts k m = (replicate (length ts) True, m)"
proof (induction ts)
  case Nil
  then show ?case by simp
next
  case (Cons t ts)
  then have "isRateLimited t k m = (True, m)"
    by (simp add: isRateLimited_when_recent)
  with Cons show ?case by simp
qed

text \<open>
  Claim C4. A call is let through (\<^verbatim>\<open>isRateLimited\<close> answers \<^verbatim>\<open>false\<close>) exactly when no
  reading is stored for the chat or at least 2000 ms have passed since the stored one,
  and a call that is let through stores its own reading. Hence, after a call at \<open>now\<close>
  that was let through, a call less than 2000 ms later is refused and a call 2000 ms or
  more after \<open>now\<close> is let through again.

  The stored readings are values of \<^verbatim>\<open>Date.now()\<close>, which is 0 only during the first
  millisecond of 1970; the statement is about readings other than 0, the only ones the
  \<^verbatim>\<open>lastMessage &&\<close> test tells from a missing entry.
\<close>

theorem isRateLimited_gate:
  fixes m :: "'k \<rightharpoonup> int"
  assumes clock: "\<forall>t. m k = Some t \<longrightarrow> t \<noteq> 0"
  shows "((\<not> fst (isRateLimited now k m)) =
            (m k = None \<or> (\<exists>t. m k = Some t \<and> 2000 \<le> now - t))) \<and>
         (\<not> fst (isRateLimited now k m) \<longrightarrow> snd (isRateLimited now k m) = m(k \<mapsto> now)) \<and>
         (\<not> fst (isRateLimited now k m) \<and> now \<noteq> 0 \<and> t2 - now < 2000 \<and> 2000 \<le> t3 - now \<longrightarrow>
            fst (isRateLimited t2 k (snd (isRateLimited now k m))) \<and>
            \<not> fst (isRateLimited t3 k
                     (snd (isRateLimited t2 k (snd (isRateLimited now k m))))))"
proof (intro conjI impI)
  show "(\<not> fst (isRateLimited now k m)) =
          (m k = None \<or> (\<exists>t. m k = Some t \<and> 2000 \<le> now - t))"
    using clock by (auto simp: isRateLimited_def RATE_LIMIT_MS_def split: option.splits)
next
  assume "\<not> fst (isRateLimited now k m)"
  then show "snd (isRateLimited now k m) = m(k \<mapsto> now)"
    by (auto simp: isRateLimited_def split: option.splits if_splits)
next
  assume a: "\<not> fst (isRateLimited now k m) \<and> now \<noteq> 0 \<and> t2 - now < 2000 \<and> 2000 \<le> t3 - now"
  then have m1: "snd (isRateLimited now k m) = m(k \<mapsto> now)"
    by (auto simp: isRateLimited_def split: option.splits if_splits)
  have second: "isRateLimited t2 k (m(k \<mapsto> now)) = (True, m(k \<mapsto> now))"
    using a by (simp add: isRateLimited_when_recent)
  show "fst (isRateLimited t2 k (snd (isRateLimited now k m)))"
    by (simp add: m1 second)
  show "\<not> fst (isRateLimited t3 k (snd (isRateLimited t2 k (snd (isRateLimited now k m)))))"
    using a by (simp add: m1 second) (simp add: isRateLimited_def RATE_LIMIT_MS_def)
qed

theorem isRateLimited_gate_witness:
  "\<not> fst (isRateLimited 3500 (Num 42) [Num 42 \<mapsto> 1000]) \<and>
   snd (isRateLimited 3500 (Num 42) [Num 42 \<mapsto> 1000]) = [Num 42 \<mapsto> 3500] \<and>
   fst (isRateLimited 4000 (Num 42) (snd (isRateLimited 3500 (Num 42) [Num 42 \<mapsto> 1000]))) \<and>
   \<not> fst (isRateLimited 5500 (Num 42)
           (snd (isRateLimited 4000 (Num 42)
                  (snd (isRateLimited 3500 (Num 42) [Num 42 \<mapsto> 1000])))))"
  using isRateLimited_gate [of "[Num 42 \<mapsto> 1000]" "Num 42" 3500 4000 5500]
  by (simp add: isRateLimited_def RATE_LIMIT_MS_def)

text \<open>
  Claim C10. A call that is refused leaves the map as it was, so the stored reading of
  the chat is still that of the last call let through: after the reading \<open>t0\<close> (not 0),
  any number of calls within 2000 ms of \<open>t0\<close> are all refused and change nothing, and the
  next call 2000 ms or more after \<open>t0\<close> is let through and stores its reading.
\<close>

theorem denied_calls_keep_timestamp:
  fixes m :: "'k \<rightharpoonup> int"
  shows "(fst (isRateLimited now k m) \<longrightarrow> snd (isRateLimited now k m) = m) \<and>
         (m k = Some t0 \<and> t0 \<noteq> 0 \<and> (\<forall>t \<in> set ts. t - t0 < 2000) \<and> 2000 \<le> t' - t0 \<longrightarrow>
            burst ts k m = (replicate (length ts) True, m) \<and>
            isRateLimited t' k (snd (burst ts k m)) = (False, m(k \<mapsto> t')))"
proof (intro conjI impI)
  assume "fst (isRateLimited now k m)"
  then show "snd (isRateLimited now k m) = m" by (rule isRateLimited_denied_same)
next
  assume a: "m k = Some t0 \<and> t0 \<noteq> 0 \<and> (\<forall>t \<in> set ts. t - t0 < 2000) \<and> 2000 \<le> t' - t0"
  then show b: "burst ts k m = (replicate (length ts) True, m)"
    by (simp add: burst_all_denied)
  show "isRateLimited t' k (snd (burst ts k m)) = (False, m(k \<mapsto> t'))"
    using a by (simp add: b isRateLimited_def RATE_LIMIT_MS_def)
qed

theorem denied_calls_keep_timestamp_witness:
  "fst (isRateLimited 1500 (Num 42) [Num 42 \<mapsto> 1000]) \<and>
   snd (isRateLimited 1500 (Num 42) [Num 42 \<mapsto> 1000]) = [Num 42 \<mapsto> 1000] \<and>
   burst [1200, 1900, 2999] (Num 42) [Num 42 \<mapsto> 1000] =
     ([True, True, True], [Num 42 \<mapsto> 1000]) \<and>
   isRateLimited 3000 (Num 42) (snd (burst [1200, 1900, 2999] (Num 42) [Num 42 \<mapsto> 1000])) =
     (False, [Num 42 \<mapsto> 3000])"
  using denied_calls_keep_timestamp
    [of 1500 "Num 42" "[Num 42 \<mapsto> 1000]" 1000 "[1200, 1900, 2999]" 3000]
  by (simp add: isRateLimited_def RATE_LIMIT_MS_def)

section \<open>Properties of the user store\<close>

lemma stored_save:
  "stored (saveUsersData doc d) k = (if writable d then users doc k else stored d k)"
  by (simp add: stored_def saveUsersData_def loadUsersData_def)

lemma writable_save [simp]: "writable (saveUsersData doc d) = writable d"
  by (simp add: saveUsersData_def)

lemma subscriptions_save:
  "subscriptions (loadUsersData (saveUsersData doc d)) =
     (if writable d then subscriptions doc else subscriptions (loadUsersData d))"
  by (simp add: saveUsersData_def loadUsersData_def)

lemma getUser_existing:
  "stored d (toString cid) = Some u \<Longrightarrow> getUser now cid d = (u, d)"
  by (simp add: getUser_def stored_def Let_def)

lemma fst_getUser:
  "fst (getUser now cid d) =
     (case stored d (toString cid) of None \<Rightarrow> newUser (toString cid) now | Some u \<Rightarrow> u)"
  by (simp add: getUser_def stored_def Let_def split: option.splits)

lemma stored_getUser:
  "stored (snd (getUser now cid d)) k =
     (if writable d \<and> k = toString cid \<and> stored d k = None
      then Some (newUser k now) else stored d k)"
  by (auto simp: getUser_def Let_def stored_save split: option.splits) (simp_all add: stored_def)

lemma writable_getUser [simp]: "writable (snd (getUser now cid d)) = writable d"
  by (simp add: getUser_def Let_def split: option.splits)

lemma updateUser_absent:
  "stored d (toString cid) = None \<Longrightarrow> updateUser cid up d = d"
  by (simp add: updateUser_def stored_def Let_def)

lemma stored_updateUser:
  "stored (updateUser cid up d) k =
     (if writable d \<and> k = toString cid then map_option (\<lambda>u. assign u up) (stored d k)
      else stored d k)"
  by (auto simp: updateUser_def Let_def stored_save split: option.splits) (simp_all add: stored_def)

lemma writable_updateUser [simp]: "writable (updateUser cid up d) = writable d"
  by (simp add: updateUser_def Let_def split: option.splits)

lemma subscriptions_updateUser:
  "subscriptions (loadUsersData (updateUser cid up d)) = subscriptions (loadUsersData d)"
  by (simp add: updateUser_def Let_def subscriptions_save split: option.splits)

lemma assign_fields:
  "chatId (assign u up) = (case set_chatId up of None \<Rightarrow> chatId u | Some v \<Rightarrow> v)"
  "username (assign u up) = (case set_username up of None \<Rightarrow> username u | Some v \<Rightarrow> v)"
  "firstName (assign u up) = (case set_firstName up of None \<Rightarrow> firstName u | Some v \<Rightarrow> v)"
  "joinDate (assign u up) = (case set_joinDate up of None \<Rightarrow> joinDate u | Some v \<Rightarrow> v)"
  "freeSearchesUsed (assign u up) =
     (case set_freeSearchesUsed up of None \<Rightarrow> freeSearchesUsed u | Some v \<Rightarrow> v)"
  "totalSearches (assign u up) =
     (case set_totalSearches up of None \<Rightarrow> totalSearches u | Some v \<Rightarrow> v)"
  "isSubscribed (assign u up) = (case set_isSubscribed up of None \<Rightarrow> isSubscribed u | Some v \<Rightarrow> v)"
  "subscriptionExpiry (assign u up) =
     (case set_subscriptionExpiry up of None \<Rightarrow> subscriptionExpiry u | Some v \<Rightarrow> v)"
  by (simp_all add: assign_def)

lemma unnamed_kept_assign: "unnamed_kept up u (assign u up)"
  by (simp add: unnamed_kept_def assign_fields)

lemma unnamed_kept_refl: "unnamed_kept up u u"
  by (simp add: unnamed_kept_def)

lemma show_int_42: "show_int 42 = ''42''"
  by (simp add: show_int_def digit_char_def)

lemma show_int_77: "show_int 77 = ''77''"
  by (simp add: show_int_def digit_char_def)

lemma show_int_7: "show_int 7 = ''7''"
  by (simp add: show_int_def digit_char_def)

lemma writable_examples: "writable fresh_disk" "writable example_disk"
  by (simp_all add: fresh_disk_def example_disk_def)

lemma stored_example_disk:
  "stored example_disk k =
     (if k = ''77'' then Some example_subscriber
      else if k = ''42'' then Some example_user else None)"
  by (simp add: stored_def example_disk_def loadUsersData_def)

lemma stored_fresh_disk: "stored fresh_disk k = None"
  by (simp add: stored_def fresh_disk_def loadUsersData_def emptyData_def)

text \<open>
  Claim C9. \<^verbatim>\<open>updateUser\<close> on a store with no record for the id changes nothing, not even
  the file. When there is a record, the records of all other ids, the \<^verbatim>\<open>subscriptions\<close>
  part and every field of the record that the update does not name stay as they were;
  and when the file can be written, the record becomes the old one with the named
  fields assigned.
\<close>

theorem updateUser_frame:
  "(stored d (toString cid) = None \<longrightarrow> updateUser cid up d = d) \<and>
   (\<forall>k. k \<noteq> toString cid \<longrightarrow> stored (updateUser cid up d) k = stored d k) \<and>
   subscriptions (loadUsersData (updateUser cid up d)) = subscriptions (loadUsersData d) \<and>
   writable (updateUser cid up d) = writable d \<and>
   (\<forall>u. stored d (toString cid) = Some u \<longrightarrow>
      (\<exists>u'. stored (updateUser cid up d) (toString cid) = Some u' \<and> unnamed_kept up u u') \<and>
      (writable d \<longrightarrow> stored (updateUser cid up d) (toString cid) = Some (assign u up)))"
proof (intro conjI allI impI)
  show "stored d (toString cid) = None \<Longrightarrow> updateUser cid up d = d"
    by (rule updateUser_absent)
next
  fix u
  assume u: "stored d (toString cid) = Some u"
  show "\<exists>u'. stored (updateUser cid up d) (toString cid) = Some u' \<and> unnamed_kept up u u'"
    using u by (simp add: stored_updateUser unnamed_kept_assign unnamed_kept_refl)
  show "writable d \<Longrightarrow> stored (updateUser cid up d) (toString cid) = Some (assign u up)"
    using u by (simp add: stored_updateUser)
qed (simp_all add: stored_updateUser subscriptions_updateUser)

theorem updateUser_frame_witness:
  "updateUser (Num 7) (no_updates\<lparr>set_username := Some ''bob''\<rparr>) example_disk = example_disk \<and>
   stored (updateUser (Num 42) (no_updates\<lparr>set_username := Some ''bob''\<rparr>) example_disk) ''42'' =
     Some (example_user\<lparr>username := ''bob''\<rparr>) \<and>
   stored (updateUser (Num 42) (no_updates\<lparr>set_username := Some ''bob''\<rparr>) example_disk) ''77'' =
     Some example_subscriber"
  using updateUser_frame [of example_disk "Num 7" "no_updates\<lparr>set_username := Some ''bob''\<rparr>"]
    updateUser_frame [of example_disk "Num 42" "no_updates\<lparr>set_username := Some ''bob''\<rparr>"]
  by (simp add: stored_example_disk show_int_7 show_int_42 writable_examples assign_def
        no_updates_def example_user_def)

section \<open>Properties of the entitlement check\<close>

lemma assign_expire:
  "assign u (no_updates\<lparr>set_isSubscribed := Some False, set_subscriptionExpiry := Some None\<rparr>) =
     expire u"
  by (simp add: assign_def no_updates_def expire_def)

lemma fst_canUserSearch:
  "fst (canUserSearch tj now cid d) =
     (let u = fst (getUser tj cid d) in
      if isSubscribed u \<and> (\<exists>e. subscriptionExpiry u = Some e \<and> now < e)
      then \<lparr>allowed = True, reason = subscribed\<rparr> else freeCheck u)"
  by (auto simp: canUserSearch_def Let_def split: prod.splits option.splits)

lemma stored_canUserSearch:
  "stored (snd (canUserSearch tj now cid d)) k =
     (if writable d \<and> k = toString cid then
        (let u = fst (getUser tj cid d) in
         if isSubscribed u \<and> (\<exists>e. subscriptionExpiry u = Some e \<and> e \<le> now)
         then Some (expire u) else Some u)
      else stored d k)"
proof -
  obtain u d1 where g: "getUser tj cid d = (u, d1)" by (cases "getUser tj cid d")
  have u: "u = fst (getUser tj cid d)" and d1: "d1 = snd (getUser tj cid d)"
    by (simp_all add: g)
  have w1: "writable d1 = writable d" by (simp add: d1)
  have s1: "stored d1 k = (if writable d \<and> k = toString cid \<and> stored d k = None
                           then Some (newUser k tj) else stored d k)"
    by (simp add: d1 stored_getUser)
  have uu: "writable d \<Longrightarrow> stored d1 (toString cid) = Some u"
    by (simp add: d1 u stored_getUser fst_getUser split: option.splits)
  show ?thesis
    using uu s1
    by (auto simp: canUserSearch_def g fst_getUser stored_updateUser w1 assign_expire
             split: option.splits)
qed

lemma writable_canUserSearch [simp]:
  "writable (snd (canUserSearch tj now cid d)) = writable d"
  by (simp add: canUserSearch_def Let_def split: prod.splits option.splits)
    (metis writable_getUser snd_conv)

lemma canUserSearch_unchanged:
  assumes "stored d (toString cid) = Some u"
    and "\<not> (isSubscribed u \<and> (\<exists>e. subscriptionExpiry u = Some e \<and> e \<le> now))"
  shows "snd (canUserSearch tj now cid d) = d"
  using assms by (auto simp: canUserSearch_def getUser_existing split: option.splits)

lemma canUserSearch_seq_limit:
  assumes "stored d (toString cid) = Some u" and "\<not> isSubscribed u" and "1 \<le> freeSearchesUsed u"
  shows "canUserSearch_seq ts cid d =
           (replicate (length ts) \<lparr>allowed = False, reason = limit_reached\<rparr>, d)"
proof (induction ts)
  case Nil
  show ?case by simp
next
  case (Cons t ts)
  obtain tj now where t: "t = (tj, now)" by (cases t)
  have "fst (canUserSearch tj now cid d) = \<lparr>allowed = False, reason = limit_reached\<rparr>"
    using assms by (simp add: fst_canUserSearch fst_getUser freeCheck_def)
  moreover have "snd (canUserSearch tj now cid d) = d"
    using assms by (simp add: canUserSearch_unchanged)
  ultimately have "canUserSearch tj now cid d = (\<lparr>allowed = False, reason = limit_reached\<rparr>, d)"
    by (simp add: prod_eq_iff)
  with Cons t show ?case by simp
qed

section \<open>Properties of the lookup request\<close>

lemma handleMobileNumber_eq:
  "handleMobileNumber e cid (rl, d) =
     (let rl' = snd (isRateLimited (t_rate e) cid rl);
          p = fst (canUserSearch (t_join e) (t_check e) cid d);
          d1 = snd (canUserSearch (t_join e) (t_check e) cid d)
      in if fst (isRateLimited (t_rate e) cid rl) then (NoReply, rl', d)
         else if \<not> allowed p then (LimitReached, rl', d1)
         else if \<not> loading_sent e then (CriticalError, rl', d1)
         else
           (case fetchFlipcartInfo (outcome e) of
              Succeeded payload \<Rightarrow>
                (Result (formatResponse payload)
                   (reason p = free_trial \<and> freeSearchesUsed (fst (getUser (t_join2 e) cid d1)) = 0),
                 rl',
                 updateUser cid (commitUsage p (fst (getUser (t_join2 e) cid d1)))
                   (snd (getUser (t_join2 e) cid d1)))
            | Failed err \<Rightarrow> (ErrorReply err, rl', d1)))"
  by (simp add: handleMobileNumber_def Let_def case_prod_beta split: fetch_result.splits)

lemma handle_Result:
  assumes "fst (handleMobileNumber e cid (rl, d)) = Result f n"
  shows "\<not> fst (isRateLimited (t_rate e) cid rl) \<and>
         allowed (fst (canUserSearch (t_join e) (t_check e) cid d)) \<and>
         (\<exists>payload. fetchFlipcartInfo (outcome e) = Succeeded payload \<and> f = formatResponse payload) \<and>
         snd (snd (handleMobileNumber e cid (rl, d))) =
           (let d1 = snd (canUserSearch (t_join e) (t_check e) cid d) in
            updateUser cid
              (commitUsage (fst (canUserSearch (t_join e) (t_check e) cid d))
                 (fst (getUser (t_join2 e) cid d1)))
              (snd (getUser (t_join2 e) cid d1)))"
  using assms
  by (auto simp: handleMobileNumber_def Let_def split: prod.splits if_splits fetch_result.splits)

lemma handle_not_Result:
  assumes "\<forall>f n. fst (handleMobileNumber e cid (rl, d)) \<noteq> Result f n"
  shows "snd (snd (handleMobileNumber e cid (rl, d))) = d \<or>
         snd (snd (handleMobileNumber e cid (rl, d))) =
           snd (canUserSearch (t_join e) (t_check e) cid d)"
  using assms
  by (auto simp: handleMobileNumber_def Let_def split: prod.splits if_splits fetch_result.splits)

lemma handle_Failed:
  assumes "fetchFlipcartInfo (outcome e) = Failed err"
  shows "\<forall>f n. fst (handleMobileNumber e cid (rl, d)) \<noteq> Result f n"
  using assms
  by (auto simp: handleMobileNumber_def Let_def split: prod.splits if_splits fetch_result.splits)

lemma usage_after_canUserSearch:
  "(\<forall>u. stored d (toString cid) = Some u \<longrightarrow>
       (\<exists>u'. stored (snd (canUserSearch tj now cid d)) (toString cid) = Some u' \<and>
             totalSearches u' = totalSearches u \<and> freeSearchesUsed u' = freeSearchesUsed u)) \<and>
   (stored d (toString cid) = None \<longrightarrow>
       (\<forall>u'. stored (snd (canUserSearch tj now cid d)) (toString cid) = Some u' \<longrightarrow>
             totalSearches u' = 0 \<and> freeSearchesUsed u' = 0))"
  by (auto simp: stored_canUserSearch fst_getUser expire_def newUser_def Let_def
           split: option.splits)

lemma fetch_example: "fetchFlipcartInfo (outcome example_env) = Succeeded example_payload"
  by (simp add: example_env_def example_payload_def not_found_body_def error_indicated_def)

lemma fetch_failing:
  "fetchFlipcartInfo (outcome failing_env) = Failed ''Network/API failure: Request timed out (15s).''"
  by (simp add: failing_env_def example_env_def escapeString_def replace_char_def)

lemma handle_example_reply:
  "fst (handleMobileNumber example_env (Num 42) (Map.empty, fresh_disk)) =
     Result (formatResponse example_payload) True"
proof -
  have times: "t_rate example_env = 5000" "t_join example_env = 5001"
    "t_check example_env = 5002" "t_join2 example_env = 5003" "loading_sent example_env"
    by (simp_all add: example_env_def)
  have r: "\<not> fst (isRateLimited 5000 (Num 42) Map.empty)"
    by (simp add: isRateLimited_def)
  have p: "fst (canUserSearch 5001 5002 (Num 42) fresh_disk) =
             \<lparr>allowed = True, reason = free_trial\<rparr>"
    by (simp add: fst_canUserSearch fst_getUser stored_fresh_disk newUser_def freeCheck_def)
  have g: "fst (getUser 5003 (Num 42) (snd (canUserSearch 5001 5002 (Num 42) fresh_disk))) =
             newUser ''42'' 5001"
    by (simp add: fst_getUser stored_canUserSearch show_int_42 stored_fresh_disk newUser_def
          writable_examples)
  show ?thesis
    by (simp add: handleMobileNumber_eq times r p g fetch_example newUser_def)
qed

lemma stored_readonly_fresh: "stored readonly_fresh_disk k = None"
  by (simp add: stored_def readonly_fresh_disk_def fresh_disk_def loadUsersData_def emptyData_def)

lemma getUser_readonly_fresh:
  "getUser t cid readonly_fresh_disk = (newUser (toString cid) t, readonly_fresh_disk)"
  by (simp add: getUser_def Let_def saveUsersData_def readonly_fresh_disk_def fresh_disk_def
        loadUsersData_def emptyData_def)

lemma canUserSearch_readonly_fresh:
  "canUserSearch tj now cid readonly_fresh_disk =
     (\<lparr>allowed = True, reason = free_trial\<rparr>, readonly_fresh_disk)"
  by (simp add: canUserSearch_def getUser_readonly_fresh newUser_def freeCheck_def)

text \<open>
  Claim C1, as stated, fails when the file cannot be written. \<^verbatim>\<open>saveUsersData\<close> catches
  the write error and goes on, so the lookup still completes and answers with the
  result and the "Free search used!" notice, but neither the new record nor its
  counters reach the file, and the next check answers \<^verbatim>\<open>free_trial\<close> again.
\<close>

theorem free_trial_again_when_unsaved:
  "\<not> writable readonly_fresh_disk \<and>
   handleMobileNumber example_env (Num 42) (Map.empty, readonly_fresh_disk) =
     (Result (formatResponse example_payload) True, [Num 42 \<mapsto> 5000], readonly_fresh_disk) \<and>
   fst (canUserSearch 6000 6001 (Num 42)
          (snd (snd (handleMobileNumber example_env (Num 42) (Map.empty, readonly_fresh_disk))))) =
     \<lparr>allowed = True, reason = free_trial\<rparr> \<and>
   fst (canUserSearch 6000 6001 (Num 42)
          (snd (snd (handleMobileNumber example_env (Num 42) (Map.empty, readonly_fresh_disk))))) \<noteq>
     \<lparr>allowed = False, reason = limit_reached\<rparr>"
proof -
  have times: "t_rate example_env = 5000" "t_join example_env = 5001"
    "t_check example_env = 5002" "t_join2 example_env = 5003" "loading_sent example_env"
    by (simp_all add: example_env_def)
  have r: "isRateLimited 5000 (Num 42) Map.empty = (False, [Num 42 \<mapsto> 5000])"
    by (simp add: isRateLimited_def)
  have u: "updateUser (Num 42) up readonly_fresh_disk = readonly_fresh_disk" for up
    by (simp add: updateUser_absent stored_readonly_fresh)
  have h: "handleMobileNumber example_env (Num 42) (Map.empty, readonly_fresh_disk) =
     (Result (formatResponse example_payload) True, [Num 42 \<mapsto> 5000], readonly_fresh_disk)"
    by (simp add: handleMobileNumber_eq times r canUserSearch_readonly_fresh
          getUser_readonly_fresh fetch_example u newUser_def)
  have w: "\<not> writable readonly_fresh_disk"
    by (simp add: readonly_fresh_disk_def)
  show ?thesis
    by (simp add: h w canUserSearch_readonly_fresh)
qed

text \<open>
  Claim C1, amended. For an id with no record the check answers \<^verbatim>\<open>{allowed: true, reason:
  'free_trial'}\<close>. And when an id that holds no subscription has completed a lookup (the
  request was answered with a result) on a store whose file can be written, its record
  has one free search used and every later check, at any times, answers \<^verbatim>\<open>{allowed:
  false, reason: 'limit_reached'}\<close> and leaves the store as it is.
\<close>

theorem free_trial_then_limit:
  "(stored d (toString cid) = None \<longrightarrow>
      fst (canUserSearch tj now cid d) = \<lparr>allowed = True, reason = free_trial\<rparr>) \<and>
   (writable d \<and> (\<forall>u. stored d (toString cid) = Some u \<longrightarrow> \<not> isSubscribed u) \<and>
    fst (handleMobileNumber e cid (rl, d)) = Result f n \<longrightarrow>
      (\<exists>u'. stored (snd (snd (handleMobileNumber e cid (rl, d)))) (toString cid) = Some u' \<and>
            freeSearchesUsed u' = 1 \<and> \<not> isSubscribed u') \<and>
      canUserSearch_seq ts cid (snd (snd (handleMobileNumber e cid (rl, d)))) =
        (replicate (length ts) \<lparr>allowed = False, reason = limit_reached\<rparr>,
         snd (snd (handleMobileNumber e cid (rl, d)))))"
proof (intro conjI impI)
  assume "stored d (toString cid) = None"
  then show "fst (canUserSearch tj now cid d) = \<lparr>allowed = True, reason = free_trial\<rparr>"
    by (simp add: fst_canUserSearch fst_getUser newUser_def freeCheck_def)
next
  let ?d' = "snd (snd (handleMobileNumber e cid (rl, d)))"
  let ?p = "fst (canUserSearch (t_join e) (t_check e) cid d)"
  let ?d1 = "snd (canUserSearch (t_join e) (t_check e) cid d)"
  let ?u0 = "fst (getUser (t_join e) cid d)"
  assume a: "writable d \<and> (\<forall>u. stored d (toString cid) = Some u \<longrightarrow> \<not> isSubscribed u) \<and>
    fst (handleMobileNumber e cid (rl, d)) = Result f n"
  then have res: "fst (handleMobileNumber e cid (rl, d)) = Result f n" by simp
  have nosub: "\<not> isSubscribed ?u0"
    using a by (simp add: fst_getUser newUser_def split: option.splits)
  have p: "?p = freeCheck ?u0"
    using nosub by (simp add: fst_canUserSearch)
  have "allowed ?p" using handle_Result [OF res] by simp
  then have unused: "freeSearchesUsed ?u0 = 0" and reason: "reason ?p = free_trial"
    by (simp_all add: p freeCheck_def split: if_splits)
  have s1: "stored ?d1 (toString cid) = Some ?u0"
    using a nosub by (simp add: stored_canUserSearch)
  then have g2: "getUser (t_join2 e) cid ?d1 = (?u0, ?d1)"
    by (rule getUser_existing)
  have d': "?d' = updateUser cid (commitUsage ?p ?u0) ?d1"
    using handle_Result [OF res] by (simp add: g2)
  have s': "stored ?d' (toString cid) = Some (assign ?u0 (commitUsage ?p ?u0))"
    using a s1 by (simp add: d' stored_updateUser)
  have f': "freeSearchesUsed (assign ?u0 (commitUsage ?p ?u0)) = 1"
    by (simp add: assign_fields commitUsage_def reason unused no_updates_def)
  have i': "\<not> isSubscribed (assign ?u0 (commitUsage ?p ?u0))"
    using nosub by (simp add: assign_fields commitUsage_def reason no_updates_def)
  show "\<exists>u'. stored ?d' (toString cid) = Some u' \<and> freeSearchesUsed u' = 1 \<and> \<not> isSubscribed u'"
    using s' f' i' by blast
  show "canUserSearch_seq ts cid ?d' =
          (replicate (length ts) \<lparr>allowed = False, reason = limit_reached\<rparr>, ?d')"
    by (rule canUserSearch_seq_limit [OF s' i']) (simp add: f')
qed

theorem free_trial_then_limit_witness:
  "fst (canUserSearch 5001 5002 (Num 42) fresh_disk) = \<lparr>allowed = True, reason = free_trial\<rparr> \<and>
   fst (handleMobileNumber example_env (Num 42) (Map.empty, fresh_disk)) =
     Result (formatResponse example_payload) True \<and>
   canUserSearch_seq [(6000, 6001), (7000, 7001)] (Num 42)
       (snd (snd (handleMobileNumber example_env (Num 42) (Map.empty, fresh_disk)))) =
     ([\<lparr>allowed = False, reason = limit_reached\<rparr>, \<lparr>allowed = False, reason = limit_reached\<rparr>],
      snd (snd (handleMobileNumber example_env (Num 42) (Map.empty, fresh_disk))))"
  using free_trial_then_limit
    [of fresh_disk "Num 42" 5001 5002 example_env Map.empty "formatResponse example_payload"
        True "[(6000, 6001), (7000, 7001)]"]
    handle_example_reply
  by (simp add: stored_fresh_disk writable_examples)

lemma handle_example_user:
  "stored (snd (snd (handleMobileNumber example_env (Num 42) (Map.empty, example_disk)))) ''42'' =
     Some (example_user\<lparr>freeSearchesUsed := 1, totalSearches := 1\<rparr>)"
proof -
  have times: "t_rate example_env = 5000" "t_join example_env = 5001"
    "t_check example_env = 5002" "t_join2 example_env = 5003" "loading_sent example_env"
    by (simp_all add: example_env_def)
  have r: "\<not> fst (isRateLimited 5000 (Num 42) Map.empty)"
    by (simp add: isRateLimited_def)
  have s: "stored example_disk (toString (Num 42)) = Some example_user"
    by (simp add: stored_example_disk show_int_42)
  have n: "\<not> isSubscribed example_user" "freeSearchesUsed example_user = 0"
    "totalSearches example_user = 0"
    by (simp_all add: example_user_def)
  have p: "fst (canUserSearch 5001 5002 (Num 42) example_disk) =
             \<lparr>allowed = True, reason = free_trial\<rparr>"
    using s n by (simp add: fst_canUserSearch fst_getUser freeCheck_def)
  have d1: "snd (canUserSearch 5001 5002 (Num 42) example_disk) = example_disk"
    using n by (intro canUserSearch_unchanged [OF s]) simp
  have g: "getUser 5003 (Num 42) example_disk = (example_user, example_disk)"
    using s by (rule getUser_existing)
  have a: "assign example_user (commitUsage \<lparr>allowed = True, reason = free_trial\<rparr> example_user) =
             example_user\<lparr>freeSearchesUsed := 1, totalSearches := 1\<rparr>"
    by (simp add: assign_def commitUsage_def no_updates_def n)
  show ?thesis
    using s
    by (simp add: handleMobileNumber_eq times r p d1 g fetch_example stored_updateUser
          writable_examples a show_int_42)
qed

lemma Failed_iff_error:
  "(\<exists>err. fetchFlipcartInfo out = Failed err) = (\<forall>payload. classify out \<noteq> Success payload)"
  by (cases out) (auto simp: Let_def)

text \<open>
  Claim C3. The fetch fails exactly when its outcome is one of the five error variants
  (any but \<open>Success\<close>). When it fails, the request leaves the two usage counters of the
  id as they were: those of its record if it had one, 0 and 0 if the record was made by
  this request. And whenever a counter of an existing record differs after the request,
  the fetch had succeeded and the request was answered with the result.
\<close>

theorem failed_fetch_keeps_usage:
  "((\<exists>err. fetchFlipcartInfo (outcome e) = Failed err) =
      (\<forall>payload. classify (outcome e) \<noteq> Success payload)) \<and>
   (fetchFlipcartInfo (outcome e) = Failed err \<longrightarrow>
      (\<forall>u. stored d (toString cid) = Some u \<longrightarrow>
         (\<exists>u'. stored (snd (snd (handleMobileNumber e cid (rl, d)))) (toString cid) = Some u' \<and>
               totalSearches u' = totalSearches u \<and> freeSearchesUsed u' = freeSearchesUsed u)) \<and>
      (stored d (toString cid) = None \<longrightarrow>
         (\<forall>u'. stored (snd (snd (handleMobileNumber e cid (rl, d)))) (toString cid) = Some u' \<longrightarrow>
               totalSearches u' = 0 \<and> freeSearchesUsed u' = 0))) \<and>
   (\<forall>u u'. stored d (toString cid) = Some u \<and>
           stored (snd (snd (handleMobileNumber e cid (rl, d)))) (toString cid) = Some u' \<and>
           (totalSearches u' \<noteq> totalSearches u \<or> freeSearchesUsed u' \<noteq> freeSearchesUsed u) \<longrightarrow>
      (\<exists>payload n. fetchFlipcartInfo (outcome e) = Succeeded payload \<and>
         fst (handleMobileNumber e cid (rl, d)) = Result (formatResponse payload) n))"
proof -
  let ?d' = "snd (snd (handleMobileNumber e cid (rl, d)))"
  have kept: "(\<forall>u. stored d (toString cid) = Some u \<longrightarrow>
         (\<exists>u'. stored ?d' (toString cid) = Some u' \<and>
               totalSearches u' = totalSearches u \<and> freeSearchesUsed u' = freeSearchesUsed u)) \<and>
      (stored d (toString cid) = None \<longrightarrow>
         (\<forall>u'. stored ?d' (toString cid) = Some u' \<longrightarrow>
               totalSearches u' = 0 \<and> freeSearchesUsed u' = 0))"
    if no: "\<forall>f n. fst (handleMobileNumber e cid (rl, d)) \<noteq> Result f n"
  proof -
    from no have "?d' = d \<or> ?d' = snd (canUserSearch (t_join e) (t_check e) cid d)"
      by (rule handle_not_Result)
    then show ?thesis
    proof
      assume "?d' = d"
      then show ?thesis by simp
    next
      assume "?d' = snd (canUserSearch (t_join e) (t_check e) cid d)"
      then show ?thesis
        using usage_after_canUserSearch
          [where d = d and cid = cid and tj = "t_join e" and now = "t_check e"]
        by simp
    qed
  qed
  have first: "fetchFlipcartInfo (outcome e) = Failed err \<longrightarrow>
      (\<forall>u. stored d (toString cid) = Some u \<longrightarrow>
         (\<exists>u'. stored ?d' (toString cid) = Some u' \<and>
               totalSearches u' = totalSearches u \<and> freeSearchesUsed u' = freeSearchesUsed u)) \<and>
      (stored d (toString cid) = None \<longrightarrow>
         (\<forall>u'. stored ?d' (toString cid) = Some u' \<longrightarrow>
               totalSearches u' = 0 \<and> freeSearchesUsed u' = 0))"
    using kept handle_Failed [of e err cid rl d] by blast
  have second: "\<exists>payload n. fetchFlipcartInfo (outcome e) = Succeeded payload \<and>
         fst (handleMobileNumber e cid (rl, d)) = Result (formatResponse payload) n"
    if a: "stored d (toString cid) = Some u \<and> stored ?d' (toString cid) = Some u' \<and>
           (totalSearches u' \<noteq> totalSearches u \<or> freeSearchesUsed u' \<noteq> freeSearchesUsed u)"
    for u u'
  proof -
    have "\<exists>f n. fst (handleMobileNumber e cid (rl, d)) = Result f n"
      using kept a by force
    then obtain f n where "fst (handleMobileNumber e cid (rl, d)) = Result f n" by blast
    then show ?thesis
      using handle_Result [of e cid rl d f n] by auto
  qed
  show ?thesis
    using first second Failed_iff_error [of "outcome e"] by blast
qed

theorem failed_fetch_keeps_usage_witness:
  "fetchFlipcartInfo (outcome failing_env) =
     Failed ''Network/API failure: Request timed out (15s).'' \<and>
   stored example_disk ''77'' = Some example_subscriber \<and>
   totalSearches example_subscriber = 3 \<and> freeSearchesUsed example_subscriber = 1 \<and>
   fst (handleMobileNumber failing_env (Num 77) (Map.empty, example_disk)) =
     ErrorReply ''Network/API failure: Request timed out (15s).'' \<and>
   (\<exists>u'. stored (snd (snd (handleMobileNumber failing_env (Num 77) (Map.empty, example_disk))))
            ''77'' = Some u' \<and>
         totalSearches u' = 3 \<and> freeSearchesUsed u' = 1) \<and>
   stored example_disk ''42'' = Some example_user \<and>
   stored (snd (snd (handleMobileNumber example_env (Num 42) (Map.empty, example_disk)))) ''42'' =
     Some (example_user\<lparr>freeSearchesUsed := 1, totalSearches := 1\<rparr>) \<and>
   fetchFlipcartInfo (outcome example_env) = Succeeded example_payload"
proof -
  have times: "t_rate failing_env = 5000" "t_join failing_env = 5001"
    "t_check failing_env = 5002" "loading_sent failing_env"
    by (simp_all add: failing_env_def example_env_def)
  have r: "\<not> fst (isRateLimited 5000 (Num 77) Map.empty)"
    by (simp add: isRateLimited_def)
  have p: "fst (canUserSearch 5001 5002 (Num 77) example_disk) =
             \<lparr>allowed = True, reason = subscribed\<rparr>"
    by (simp add: fst_canUserSearch fst_getUser stored_example_disk show_int_77
          example_subscriber_def)
  have reply: "fst (handleMobileNumber failing_env (Num 77) (Map.empty, example_disk)) =
     ErrorReply ''Network/API failure: Request timed out (15s).''"
    by (simp add: handleMobileNumber_eq times r p fetch_failing)
  show ?thesis
    using failed_fetch_keeps_usage
      [of failing_env "''Network/API failure: Request timed out (15s).''" example_disk
          "Num 77" Map.empty]
    by (simp add: fetch_failing reply stored_example_disk show_int_77 example_subscriber_def
          handle_example_user fetch_example)
qed

section \<open>Subscriptions\<close>

lemma assign_grant:
  "assign u (no_updates\<lparr>set_isSubscribed := Some True,
                         set_subscriptionExpiry := Some (Some x)\<rparr>) =
     u\<lparr>isSubscribed := True, subscriptionExpiry := Some x\<rparr>"
  by (simp add: assign_def no_updates_def)

lemma adduser_granted:
  assumes "fst (adduser z sender t0 uid days d) = Added days uid"
  shows "snd (adduser z sender t0 uid days d) =
           updateUser (Str uid)
             (no_updates\<lparr>set_isSubscribed := Some True,
                          set_subscriptionExpiry := Some (Some (addDays z t0 days))\<rparr>) d"
  using assms by (simp add: adduser_def Let_def split: if_splits)

lemma utc_addDays: "addDays utc now days = now + int days * 86400000"
  by (simp add: addDays_def utc_def)

text \<open>
  For an id that has a record, on a file that can be written, \<^verbatim>\<open>/adduser\<close> does what it
  says: until the expiry date the check answers \<^verbatim>\<open>subscribed\<close> and changes nothing; the
  first check at or after it answers by the free searches used and writes
  \<^verbatim>\<open>{isSubscribed: false, subscriptionExpiry: null}\<close> into the record.
\<close>

lemma grant_with_record:
  assumes rec: "stored d uid = Some u"
    and w: "writable d"
    and key: "toString cid = uid"
    and added: "fst (adduser z sender t0 uid days d) = Added days uid"
  shows "(now < addDays z t0 days \<longrightarrow>
            canUserSearch tj now cid (snd (adduser z sender t0 uid days d)) =
              (\<lparr>allowed = True, reason = subscribed\<rparr>, snd (adduser z sender t0 uid days d))) \<and>
         (addDays z t0 days \<le> now \<longrightarrow>
            fst (canUserSearch tj now cid (snd (adduser z sender t0 uid days d))) =
              (if freeSearchesUsed u < 1 then \<lparr>allowed = True, reason = free_trial\<rparr>
               else \<lparr>allowed = False, reason = limit_reached\<rparr>) \<and>
            stored (snd (canUserSearch tj now cid (snd (adduser z sender t0 uid days d)))) uid =
              Some (u\<lparr>isSubscribed := False, subscriptionExpiry := None\<rparr>))"
proof -
  let ?x = "addDays z t0 days"
  let ?d1 = "snd (adduser z sender t0 uid days d)"
  let ?u1 = "u\<lparr>isSubscribed := True, subscriptionExpiry := Some ?x\<rparr>"
  have s1: "stored ?d1 (toString cid) = Some ?u1"
    using rec w by (simp add: adduser_granted [OF added] stored_updateUser key assign_grant)
  have w1: "writable ?d1"
    using w by (simp add: adduser_granted [OF added])
  have g1: "fst (getUser tj cid ?d1) = ?u1"
    by (simp add: fst_getUser s1)
  show ?thesis
  proof (intro conjI impI)
    assume future: "now < ?x"
    have "fst (canUserSearch tj now cid ?d1) = \<lparr>allowed = True, reason = subscribed\<rparr>"
      using future by (simp add: fst_canUserSearch g1)
    moreover have "snd (canUserSearch tj now cid ?d1) = ?d1"
      using future by (intro canUserSearch_unchanged [OF s1]) simp
    ultimately show "canUserSearch tj now cid ?d1 =
        (\<lparr>allowed = True, reason = subscribed\<rparr>, ?d1)"
      by (simp add: prod_eq_iff)
  next
    assume past: "?x \<le> now"
    then show "fst (canUserSearch tj now cid ?d1) =
        (if freeSearchesUsed u < 1 then \<lparr>allowed = True, reason = free_trial\<rparr>
         else \<lparr>allowed = False, reason = limit_reached\<rparr>)"
      by (simp add: fst_canUserSearch g1 freeCheck_def)
    show "stored (snd (canUserSearch tj now cid ?d1)) uid =
        Some (u\<lparr>isSubscribed := False, subscriptionExpiry := None\<rparr>)"
      using past w1 by (simp add: stored_canUserSearch key g1 expire_def)
  qed
qed

lemma grant_example:
  "adduser utc (Str ''7490634345'') 1000 ''42'' 30 example_disk =
     (Added 30 ''42'', snd (adduser utc (Str ''7490634345'') 1000 ''42'' 30 example_disk)) \<and>
   canUserSearch 5001 5002 (Num 42)
       (snd (adduser utc (Str ''7490634345'') 1000 ''42'' 30 example_disk)) =
     (\<lparr>allowed = True, reason = subscribed\<rparr>,
      snd (adduser utc (Str ''7490634345'') 1000 ''42'' 30 example_disk)) \<and>
   fst (canUserSearch 5001 2592001000 (Num 42)
          (snd (adduser utc (Str ''7490634345'') 1000 ''42'' 30 example_disk))) =
     \<lparr>allowed = True, reason = free_trial\<rparr>"
proof -
  have rec: "stored example_disk ''42'' = Some example_user"
    by (simp add: stored_example_disk)
  have key: "toString (Num 42) = ''42''"
    by (simp add: show_int_42)
  have added: "fst (adduser utc (Str ''7490634345'') 1000 ''42'' 30 example_disk) = Added 30 ''42''"
    by (simp add: adduser_def ADMIN_CHAT_ID_def utc_addDays MAX_TIME_def)
  show ?thesis
    using grant_with_record [OF rec writable_examples(2) key added, of 5002 5001]
      grant_with_record [OF rec writable_examples(2) key added, of 2592001000 5001]
    by (simp add: utc_addDays prod_eq_iff added) (simp add: example_user_def)
qed

text \<open>
  Claim C2 is what the handler sets out to do and tells the admin and the user it has
  done, but not what it does for an id that has no record yet. \<^verbatim>\<open>/adduser\<close> calls
  \<^verbatim>\<open>updateUser\<close> without \<^verbatim>\<open>getUser\<close> before it (as \<^verbatim>\<open>/start\<close> and the lookup have), and
  \<^verbatim>\<open>updateUser\<close> does nothing for such an id: the handler answers \<open>Added\<close>, the file
  is as it was, and the next check, with the expiry 30 days ahead, makes the record and
  answers \<^verbatim>\<open>free_trial\<close>, in whatever time zone the server runs.
\<close>

theorem grant_without_record:
  "adduser z (Str ''7490634345'') 0 ''42'' 30 fresh_disk \<in>
     {(Added 30 ''42'', fresh_disk), (RangeError, fresh_disk)} \<and>
   adduser utc (Str ''7490634345'') 0 ''42'' 30 fresh_disk = (Added 30 ''42'', fresh_disk) \<and>
   (1 :: int) < addDays utc 0 30 \<and>
   fst (canUserSearch 0 1 (Str ''42'')
          (snd (adduser utc (Str ''7490634345'') 0 ''42'' 30 fresh_disk))) =
     \<lparr>allowed = True, reason = free_trial\<rparr> \<and>
   fst (canUserSearch 0 1 (Str ''42'')
          (snd (adduser utc (Str ''7490634345'') 0 ''42'' 30 fresh_disk))) \<noteq>
     \<lparr>allowed = True, reason = subscribed\<rparr>"
proof -
  have a: "adduser utc (Str ''7490634345'') 0 ''42'' 30 fresh_disk = (Added 30 ''42'', fresh_disk)"
    by (simp add: adduser_def ADMIN_CHAT_ID_def MAX_TIME_def utc_addDays updateUser_absent
          stored_fresh_disk)
  have b: "adduser z (Str ''7490634345'') 0 ''42'' 30 fresh_disk \<in>
     {(Added 30 ''42'', fresh_disk), (RangeError, fresh_disk)}"
    by (simp add: adduser_def ADMIN_CHAT_ID_def Let_def updateUser_absent stored_fresh_disk)
  show ?thesis
    using b
    by (simp add: a utc_addDays fst_canUserSearch fst_getUser stored_fresh_disk newUser_def
          freeCheck_def)
qed

lemma store_ok_getUser: "store_ok d \<Longrightarrow> store_ok (snd (getUser tj cid d))"
  by (auto simp: store_ok_def stored_getUser expiry_known_def newUser_def split: if_splits)

lemma store_ok_updateUser:
  assumes "store_ok d" and "\<And>u. expiry_known u \<Longrightarrow> expiry_known (assign u up)"
  shows "store_ok (updateUser cid up d)"
  using assms by (auto simp: store_ok_def stored_updateUser split: if_splits)

lemma store_ok_canUserSearch: "store_ok d \<Longrightarrow> store_ok (snd (canUserSearch tj now cid d))"
  by (auto simp: store_ok_def stored_canUserSearch fst_getUser expiry_known_def newUser_def
        expire_def Let_def split: if_splits option.splits)

lemma expiry_known_commitUsage:
  "expiry_known u \<Longrightarrow> expiry_known (assign u (commitUsage p v))"
  by (simp add: expiry_known_def assign_fields commitUsage_def no_updates_def)

lemma store_ok_handle:
  assumes "store_ok d"
  shows "store_ok (snd (snd (handleMobileNumber e cid (rl, d))))"
proof (cases "\<exists>f n. fst (handleMobileNumber e cid (rl, d)) = Result f n")
  case True
  then obtain f n where "fst (handleMobileNumber e cid (rl, d)) = Result f n" by blast
  from handle_Result [OF this] show ?thesis
    using assms
    by (simp add: Let_def store_ok_updateUser store_ok_getUser store_ok_canUserSearch
          expiry_known_commitUsage)
next
  case False
  then have "\<forall>f n. fst (handleMobileNumber e cid (rl, d)) \<noteq> Result f n" by simp
  from handle_not_Result [OF this] show ?thesis
    using assms by (auto simp: store_ok_canUserSearch)
qed

lemma store_ok_initial:
  "store_ok \<lparr>content = None, writable = w\<rparr>"
  "store_ok \<lparr>content = Some emptyData, writable = w\<rparr>"
  by (simp_all add: store_ok_def stored_def loadUsersData_def emptyData_def)

lemma store_ok_example: "store_ok example_disk"
  by (simp add: store_ok_def stored_example_disk expiry_known_def example_user_def
        example_subscriber_def)

text \<open>
  Claim C7, as stated, fails in its second part when the file cannot be written: the
  check sees the expired subscription and answers by the free searches, but its write
  of \<^verbatim>\<open>{isSubscribed: false, subscriptionExpiry: null}\<close> is lost in \<^verbatim>\<open>saveUsersData\<close>, and
  the record in the store is still subscribed with an expiry in the past.
\<close>

theorem expired_subscription_kept_when_unsaved:
  "\<not> writable readonly_example_disk \<and>
   store_ok readonly_example_disk \<and>
   canUserSearch 5001 9500 (Num 77) readonly_example_disk =
     (\<lparr>allowed = False, reason = limit_reached\<rparr>, readonly_example_disk) \<and>
   stored (snd (canUserSearch 5001 9500 (Num 77) readonly_example_disk)) ''77'' =
     Some example_subscriber \<and>
   isSubscribed example_subscriber \<and>
   subscriptionExpiry example_subscriber = Some 9000 \<and>
   (9000 :: int) < 9500"
proof -
  have s: "stored readonly_example_disk k = stored example_disk k" for k
    by (simp add: stored_def readonly_example_disk_def loadUsersData_def)
  have w: "\<not> writable readonly_example_disk"
    by (simp add: readonly_example_disk_def)
  have ok: "store_ok readonly_example_disk"
    using store_ok_example by (simp add: store_ok_def s)
  have g: "getUser 5001 (Num 77) readonly_example_disk = (example_subscriber, readonly_example_disk)"
    by (rule getUser_existing) (simp add: s stored_example_disk show_int_77)
  have u: "updateUser (Num 77) up readonly_example_disk = readonly_example_disk" for up
    using w by (simp add: updateUser_def Let_def saveUsersData_def split: option.splits)
  have c: "canUserSearch 5001 9500 (Num 77) readonly_example_disk =
     (\<lparr>allowed = False, reason = limit_reached\<rparr>, readonly_example_disk)"
    by (simp add: canUserSearch_def g u freeCheck_def example_subscriber_def)
  show ?thesis
    by (simp add: w ok c s stored_example_disk) (simp add: example_subscriber_def)
qed

text \<open>
  Claim C7, amended. A store in which every subscribed record has an expiry date stays so
  under every writer: the creation of a record (\<^verbatim>\<open>getUser\<close>), \<^verbatim>\<open>/adduser\<close>,
  \<^verbatim>\<open>/removeuser\<close>, the check with its lazy expiry, the usage update, a whole lookup
  request and \<^verbatim>\<open>/start\<close>. And after a check at time \<open>now\<close> on a store whose file can be
  written, the record of the id is not subscribed with an expiry at or before \<open>now\<close>.
\<close>

theorem subscription_expiry_invariant:
  assumes ok: "store_ok d"
  shows "store_ok (snd (getUser tj cid d)) \<and>
         store_ok (snd (adduser z sender tg uid days d)) \<and>
         store_ok (removeuser sender uid d) \<and>
         store_ok (snd (canUserSearch tj now cid d)) \<and>
         store_ok (updateUser cid (commitUsage p v) d) \<and>
         store_ok (snd (snd (handleMobileNumber e cid (rl, d)))) \<and>
         store_ok (start tj cid uname fname d) \<and>
         (writable d \<longrightarrow>
            (\<exists>u'. stored (snd (canUserSearch tj now cid d)) (toString cid) = Some u' \<and>
                  \<not> (isSubscribed u' \<and> (\<exists>x. subscriptionExpiry u' = Some x \<and> x \<le> now))))"
proof (intro conjI impI)
  show "store_ok (snd (getUser tj cid d))"
    using ok by (rule store_ok_getUser)
  show "store_ok (snd (adduser z sender tg uid days d))"
    using ok
    by (auto simp: adduser_def Let_def expiry_known_def assign_fields no_updates_def
          intro!: store_ok_updateUser)
  show "store_ok (removeuser sender uid d)"
    using ok
    by (auto simp: removeuser_def expiry_known_def assign_fields no_updates_def
          intro!: store_ok_updateUser)
  show "store_ok (snd (canUserSearch tj now cid d))"
    using ok by (rule store_ok_canUserSearch)
  show "store_ok (updateUser cid (commitUsage p v) d)"
    using ok by (intro store_ok_updateUser expiry_known_commitUsage)
  show "store_ok (snd (snd (handleMobileNumber e cid (rl, d))))"
    using ok by (rule store_ok_handle)
  show "store_ok (start tj cid uname fname d)"
    using ok
    by (auto simp: start_def expiry_known_def assign_fields no_updates_def
          split: prod.splits intro!: store_ok_updateUser)
      (metis store_ok_getUser snd_conv)
next
  assume "writable d"
  then show "\<exists>u'. stored (snd (canUserSearch tj now cid d)) (toString cid) = Some u' \<and>
                  \<not> (isSubscribed u' \<and> (\<exists>x. subscriptionExpiry u' = Some x \<and> x \<le> now))"
    by (auto simp: stored_canUserSearch Let_def expire_def)
qed

theorem subscription_expiry_invariant_witness:
  "store_ok example_disk \<and>
   store_ok (snd (adduser utc (Str ''7490634345'') 1000 ''42'' 30 example_disk)) \<and>
   store_ok (snd (canUserSearch 5001 9500 (Num 77) example_disk)) \<and>
   stored (snd (canUserSearch 5001 9500 (Num 77) example_disk)) ''77'' =
     Some (example_subscriber\<lparr>isSubscribed := False, subscriptionExpiry := None\<rparr>)"
  using subscription_expiry_invariant
    [OF store_ok_example, where tj = 5001 and cid = "Num 77" and z = utc and
       sender = "Str ''7490634345''" and tg = 1000 and uid = "''42''" and days = 30 and
       now = 9500]
  by (simp add: store_ok_example stored_canUserSearch show_int_77 writable_examples fst_getUser
        stored_example_disk example_subscriber_def expire_def)

section \<open>Properties of the lookup client\<close>

lemma escapeString_clean:
  "CHR ''<'' \<notin> set (escapeString s) \<and> CHR ''>'' \<notin> set (escapeString s)"
  by (auto simp: escapeString_def replace_char_def split: if_splits)

lemma escaped_string_error:
  "fetchFlipcartInfo (Resolved \<lparr>status = 200, statusText = ''OK'',
       data = JObj [(''error'', JStr ''<b>x</b>'')]\<rparr>) =
     Failed ''API reported an issue: &lt;b&gt;x&lt;/b&gt;''"
  by (simp add: not_found_body_def error_indicated_def apiError_def escapeString_def
        replace_char_def)

lemma escape_timeout_text:
  "escapeString ''Request timed out (15s).'' = ''Request timed out (15s).''"
  by (simp add: escapeString_def replace_char_def)

lemma fetch_classify: "fetchFlipcartInfo out = result_of (classify out)"
  by (cases out) (simp_all add: Let_def escape_timeout_text)

text \<open>
  Claim C5 does not hold of the code. \<^verbatim>\<open>escapeHtmlEntities\<close> passes anything that is not
  a string through, and the template literal then prints it: an \<^verbatim>\<open>error\<close> field that is
  an array of strings reaches the error text with its \<^verbatim>\<open><\<close> and \<^verbatim>\<open>>\<close> as they came,
  where the same text as a string is escaped (\<open>escaped_string_error\<close>). The branch
  for a status that is not 2xx does not call \<^verbatim>\<open>escapeHtmlEntities\<close> on the status text at
  all.
\<close>

theorem unescaped_array_error:
  "fetchFlipcartInfo (Resolved array_error_response) = Failed ''API reported an issue: <b>x</b>'' \<and>
   fetchFlipcartInfo (Resolved \<lparr>status = 500, statusText = ''<i>'', data = JStr []\<rparr>) =
     Failed ''HTTP Error: 500 <i>''"
  by (simp add: array_error_response_def not_found_body_def error_indicated_def apiError_def
        show_int_def digit_char_def)

lemma timeout_classified:
  "classify (axios_get TimedOut) = Timeout \<and>
   fetchFlipcartInfo (axios_get TimedOut) = Failed ''Network/API failure: Request timed out (15s).''"
  by (simp add: axios_get_def escape_timeout_text)

lemma http_error_branch:
  "classify (Resolved missing_page_response) = HttpError 404 ''Not Found'' \<and>
   fetchFlipcartInfo (Resolved missing_page_response) = Failed ''HTTP Error: 404 Not Found''"
  by (simp add: missing_page_response_def not_found_body_def show_int_def digit_char_def)

lemma never_HttpError: "classify (axios_get x) \<noteq> HttpError c t"
proof (cases x)
  case (Responded r)
  then show ?thesis by (simp add: axios_get_def)
next
  case TimedOut
  then show ?thesis by (simp add: axios_get_def)
next
  case (NoResponse code message)
  then show ?thesis by (simp add: axios_get_def)
qed

text \<open>
  Claim C6 is what the function is written to do: it has a branch for a status that is
  not 2xx, which answers \<^verbatim>\<open>HTTP Error: <status> <statusText>\<close> (\<open>http_error_branch\<close>). But
  the call of \<^verbatim>\<open>axios.get\<close> leaves \<^verbatim>\<open>validateStatus\<close> at its default, axios throws for
  every such response, and the \<^verbatim>\<open>catch\<close> block answers it as a network failure with the
  message \<^verbatim>\<open>Request failed with status code 404\<close>. No outcome of the request is
  ever classified as \<open>HttpError\<close>. The other parts of the claim hold: every outcome
  reaches one return statement (\<open>fetch_classify\<close>), and a request that runs into the
  timeout is a \<open>Timeout\<close> (\<open>timeout_classified\<close>).
\<close>

theorem http_error_never_returned:
  "classify (axios_get x) \<noteq> HttpError c t \<and>
   axios_get (Responded missing_page_response) =
     Rejected (Some ''ERR_BAD_REQUEST'') ''Request failed with status code 404'' \<and>
   classify (axios_get (Responded missing_page_response)) =
     NetworkFailure ''Request failed with status code 404'' \<and>
   fetchFlipcartInfo (axios_get (Responded missing_page_response)) =
     Failed ''Network/API failure: Request failed with status code 404''"
proof -
  have a: "axios_get (Responded missing_page_response) =
     Rejected (Some ''ERR_BAD_REQUEST'') ''Request failed with status code 404''"
    by (simp add: axios_get_def missing_page_response_def bad_status_code_def show_int_def
          digit_char_def)
  have e: "escapeString ''Request failed with status code 404'' =
     ''Request failed with status code 404''"
    by (simp add: escapeString_def replace_char_def)
  show ?thesis
    by (simp add: never_HttpError a e)
qed

section \<open>Properties of the address cleaning\<close>

lemma comma_not_space [simp]: "\<not> is_space (CHR '','')"
  by (simp add: is_space_def)

lemma space_is_space [simp]: "is_space (CHR '' '')"
  by (simp add: is_space_def)

lemma next_comma_simps [simp]:
  "next_comma [] = False"
  "next_comma (c # r) = (if is_space c then next_comma r else c = CHR '','')"
  by (simp_all add: next_comma_def)





















lemma replace_char_Nil [simp]: "replace_char c r [] = []"
  by (simp add: replace_char_def)






lemma bang_not_space [simp]: "\<not> is_space (CHR ''!'')"
  by (simp add: is_space_def)



















lemma not_separator_chars [simp]:
  "\<not> is_separator (CHR ''&'')" "\<not> is_separator (CHR ''<'')" "\<not> is_separator (CHR ''>'')"
  by (simp_all add: is_separator_def is_space_def)





lemma not_separator_semicolon [simp]: "\<not> is_separator (CHR '';'')"
  by (simp add: is_separator_def is_space_def)






end
